theory Spec2Isabelle
  imports Complex_Main
begin

section \<open>JSON documents\<close>

text \<open>
  Payloads, mapping configurations and the free-form \<open>meta\<close> bags are JSON documents.
  Python reads them as \<open>None\<close>, \<open>bool\<close>, \<open>int\<close>, \<open>float\<close>, \<open>str\<close>, \<open>list\<close> and
  \<open>dict\<close>; a \<open>dict\<close> keeps its insertion order and has no duplicate key.
\<close>

datatype json =
    JNull
  | JBool bool
  | JInt int
  | JFloat rat
  | JStr string
  | JArr "json list"
  | JObj "(string \<times> json) list"

section \<open>Python values and library functions\<close>

text \<open>The exceptions that the modelled code can raise.\<close>

datatype exn =
    ValueError
  | TypeError
  | AttributeError
  | FieldError
  | IntegrityError
  | MultipleObjectsReturned

text \<open>Sequencing of two computations that may raise.\<close>

definition ebind :: "exn + 'a \<Rightarrow> ('a \<Rightarrow> exn + 'b) \<Rightarrow> exn + 'b" where
  "ebind m f = (case m of Inl e \<Rightarrow> Inl e | Inr x \<Rightarrow> f x)"

text \<open>A loop body run over a list, with an accumulator; the first exception ends it.\<close>

fun efold :: "('a \<Rightarrow> 's \<Rightarrow> exn + 's) \<Rightarrow> 'a list \<Rightarrow> 's \<Rightarrow> exn + 's" where
  "efold f [] s = Inr s"
| "efold f (x # xs) s = ebind (f x s) (efold f xs)"

text \<open>Truth value of a Python object: \<open>if val\<close>, \<open>a or b\<close>.\<close>

fun truthy :: "json \<Rightarrow> bool" where
  "truthy JNull = False"
| "truthy (JBool b) = b"
| "truthy (JInt n) = (n \<noteq> 0)"
| "truthy (JFloat q) = (q \<noteq> 0)"
| "truthy (JStr s) = (s \<noteq> [])"
| "truthy (JArr xs) = (xs \<noteq> [])"
| "truthy (JObj kvs) = (kvs \<noteq> [])"

definition por :: "json \<Rightarrow> json \<Rightarrow> json" where
  "por a b = (if truthy a then a else b)"

text \<open>\<open>d.get(k)\<close> and \<open>d.get(k, default)\<close>: only a \<open>dict\<close> has \<open>get\<close>.\<close>

fun dget_d :: "json \<Rightarrow> string \<Rightarrow> json \<Rightarrow> exn + json" where
  "dget_d (JObj kvs) k d = Inr (case map_of kvs k of None \<Rightarrow> d | Some v \<Rightarrow> v)"
| "dget_d _ k d = Inl AttributeError"

definition dget :: "json \<Rightarrow> string \<Rightarrow> exn + json" where
  "dget j k = dget_d j k JNull"

text \<open>\<open>for x in val\<close>: a list gives its elements, a \<open>dict\<close> its keys, a string its
  characters; the other values are not iterable.\<close>

fun iter :: "json \<Rightarrow> exn + json list" where
  "iter (JArr xs) = Inr xs"
| "iter (JObj kvs) = Inr (map (\<lambda>kv. JStr (fst kv)) kvs)"
| "iter (JStr s) = Inr (map (\<lambda>c. JStr [c]) s)"
| "iter _ = Inl TypeError"

subsection \<open>Strings\<close>

text \<open>\<open>str.lower\<close>, \<open>str.strip\<close> and \<open>in\<close> on strings, for ASCII text (a \<open>char\<close> is a
  byte).\<close>

definition lower_char :: "char \<Rightarrow> char" where
  "lower_char c =
     (case map_of (zip ''ABCDEFGHIJKLMNOPQRSTUVWXYZ'' ''abcdefghijklmnopqrstuvwxyz'') c of
        None \<Rightarrow> c | Some l \<Rightarrow> l)"

definition lower :: "string \<Rightarrow> string" where
  "lower s = map lower_char s"

definition is_space :: "char \<Rightarrow> bool" where
  "is_space c \<longleftrightarrow>
     c \<in> set [CHR '' '', CHR 0x09, CHR 0x0A, CHR 0x0B, CHR 0x0C, CHR 0x0D,
              CHR 0x1C, CHR 0x1D, CHR 0x1E, CHR 0x1F]"

definition py_strip :: "string \<Rightarrow> string" where
  "py_strip s = rev (dropWhile is_space (rev (dropWhile is_space s)))"

fun startswith :: "string \<Rightarrow> string \<Rightarrow> bool" where
  "startswith s [] = True"
| "startswith [] (p # ps) = False"
| "startswith (c # cs) (p # ps) = (c = p \<and> startswith cs ps)"

text \<open>\<open>needle in hay\<close> for two strings.\<close>

fun str_in :: "string \<Rightarrow> string \<Rightarrow> bool" where
  "str_in needle [] = (needle = [])"
| "str_in needle (c # cs) = (startswith (c # cs) needle \<or> str_in needle cs)"

text \<open>\<open>x.lower()\<close> for an object taken from a document: only a string has \<open>lower\<close>.\<close>

fun jlower :: "json \<Rightarrow> exn + string" where
  "jlower (JStr s) = Inr (lower s)"
| "jlower _ = Inl AttributeError"

fun jstrip :: "json \<Rightarrow> exn + string" where
  "jstrip (JStr s) = Inr (py_strip s)"
| "jstrip _ = Inl AttributeError"

subsection \<open>Library functions taken as parameters\<close>

text \<open>
  A Python datetime: the instant it denotes in microseconds since the epoch (for a
  naive value, its wall clock read as UTC) and its UTC offset in minutes, \<open>None\<close> for a
  naive value.
\<close>

record datetime =
  dt_instant :: int
  dt_tzinfo :: "int option"

text \<open>
  The functions of Python and Django that the code calls and that are not part of the
  repository:
  \<^item> \<open>django.utils.dateparse.parse_datetime\<close>: \<open>None\<close> for a string that is not well
    formatted, \<open>ValueError\<close> for a well formatted string that is no valid datetime;
  \<^item> \<open>datetime.fromisoformat\<close>;
  \<^item> the current time zone of the Django settings, as an offset in minutes;
  \<^item> \<open>float(s)\<close> and \<open>int(s)\<close> of a string, \<open>None\<close> where they raise \<open>ValueError\<close>;
  \<^item> \<open>str(x)\<close> of an object that is not a string;
  \<^item> \<open>re.compile(p)\<close>: \<open>None\<close> when the pattern compiles, the text of \<open>re.error\<close>
    otherwise.
\<close>

record pylib =
  parse_datetime :: "string \<Rightarrow> exn + datetime option"
  fromisoformat :: "string \<Rightarrow> exn + datetime"
  current_timezone :: int
  float_of_str :: "string \<Rightarrow> rat option"
  int_of_str :: "string \<Rightarrow> int option"
  repr :: "json \<Rightarrow> string"
  re_compile :: "string \<Rightarrow> string option"

text \<open>\<open>str(x)\<close>\<close>

definition py_str :: "pylib \<Rightarrow> json \<Rightarrow> string" where
  "py_str L j = (case j of JStr s \<Rightarrow> s | _ \<Rightarrow> repr L j)"

text \<open>\<open>int(x)\<close>: a float is truncated towards zero.\<close>

definition py_int :: "pylib \<Rightarrow> json \<Rightarrow> exn + int" where
  "py_int L j =
     (case j of
        JInt n \<Rightarrow> Inr n
      | JBool b \<Rightarrow> Inr (if b then 1 else 0)
      | JFloat q \<Rightarrow> Inr (if 0 \<le> q then \<lfloor>q\<rfloor> else \<lceil>q\<rceil>)
      | JStr s \<Rightarrow> (case int_of_str L s of None \<Rightarrow> Inl ValueError | Some n \<Rightarrow> Inr n)
      | _ \<Rightarrow> Inl TypeError)"

text \<open>\<open>float(x)\<close>\<close>

definition py_float :: "pylib \<Rightarrow> json \<Rightarrow> exn + rat" where
  "py_float L j =
     (case j of
        JInt n \<Rightarrow> Inr (of_int n)
      | JBool b \<Rightarrow> Inr (if b then 1 else 0)
      | JFloat q \<Rightarrow> Inr q
      | JStr s \<Rightarrow> (case float_of_str L s of None \<Rightarrow> Inl ValueError | Some q \<Rightarrow> Inr q)
      | _ \<Rightarrow> Inl TypeError)"

text \<open>\<open>isinstance(val, (int, float))\<close>: \<open>bool\<close> is a subclass of \<open>int\<close>.\<close>

fun is_number :: "json \<Rightarrow> bool" where
  "is_number (JInt n) = True"
| "is_number (JFloat q) = True"
| "is_number (JBool b) = True"
| "is_number _ = False"

section \<open>Time parsing (etl/normalizers/base.py)\<close>

text \<open>
  \<open>datetime.fromtimestamp(x, tz=datetime.timezone.utc)\<close>: an aware datetime in UTC,
  rounded to the microsecond; it raises outside the years 1 to 9999.
\<close>

definition fromtimestamp_utc :: "rat \<Rightarrow> exn + datetime" where
  "fromtimestamp_utc x =
     (let us = round (x * 1000000)
      in if - 62135596800000000 \<le> us \<and> us \<le> 253402300799999999
         then Inr \<lparr>dt_instant = us, dt_tzinfo = Some 0\<rparr>
         else Inl ValueError)"

text \<open>
  \<open>django.utils.timezone.make_aware(value, timezone)\<close>: attaches the time zone to a
  naive datetime, and raises \<open>ValueError\<close> for a datetime that is aware already.
\<close>

definition make_aware :: "datetime \<Rightarrow> int \<Rightarrow> exn + datetime" where
  "make_aware d tz =
     (if dt_tzinfo d \<noteq> None then Inl ValueError
      else Inr (d\<lparr>dt_instant := dt_instant d - tz * 60000000, dt_tzinfo := Some tz\<rparr>))"

definition is_digit :: "char \<Rightarrow> bool" where
  "is_digit c \<longleftrightarrow> c \<in> set ''0123456789''"

text \<open>\<open>re.search(r"[+-]\d{4}$", s)\<close> on a stripped string.\<close>

definition offset_suffix :: "string \<Rightarrow> bool" where
  "offset_suffix s \<longleftrightarrow>
     5 \<le> length s \<and>
     (case drop (length s - 5) s of
        [] \<Rightarrow> False
      | c # ds \<Rightarrow> (c = CHR ''+'' \<or> c = CHR ''-'') \<and> list_all is_digit ds)"

text \<open>\<open>s.replace("Z", "+00:00")\<close>\<close>

definition replace_Z :: "string \<Rightarrow> string" where
  "replace_Z s = concat (map (\<lambda>c. if c = CHR ''Z'' then ''+00:00'' else [c]) s)"

text \<open>
  \<open>to_dt(val)\<close>. The numeric branch runs inside \<open>try ... except Exception: return None\<close>;
  in the string branch \<open>parse_datetime\<close> is called outside any \<open>try\<close>, and only
  \<open>fromisoformat\<close> is guarded.
\<close>

definition to_dt :: "pylib \<Rightarrow> json \<Rightarrow> exn + datetime option" where
  "to_dt L val =
     (if \<not> truthy val then Inr None
      else if is_number val then
        (case ebind (py_int L val) (\<lambda>n.
                if n > 10000000000
                then ebind (fromtimestamp_utc (of_int n / 1000))
                       (\<lambda>d. make_aware d (current_timezone L))
                else ebind (fromtimestamp_utc (of_int n))
                       (\<lambda>d. make_aware d (current_timezone L)))
         of Inl e \<Rightarrow> Inr None
          | Inr d \<Rightarrow> Inr (Some d))
      else case val of
        JStr v \<Rightarrow>
          (let s0 = py_strip v;
               s = (if offset_suffix s0
                    then take (length s0 - 5) s0 @ take 3 (drop (length s0 - 5) s0)
                         @ '':'' @ drop (length s0 - 2) s0
                    else s0)
           in ebind (parse_datetime L s) (\<lambda>d0.
                case (case d0 of
                        Some d \<Rightarrow> Inr d
                      | None \<Rightarrow> fromisoformat L (replace_Z s)) of
                  Inl e \<Rightarrow> Inr None
                | Inr d \<Rightarrow>
                    (if dt_tzinfo d = None
                     then ebind (make_aware d 0) (\<lambda>d'. Inr (Some d'))
                     else Inr (Some d))))
      | _ \<Rightarrow> Inr None)"

text \<open>\<open>earliest(history_times)\<close>: \<open>min\<close> of a list of aware datetimes compares their
  instants and returns the first least element.\<close>

fun py_min :: "datetime \<Rightarrow> datetime list \<Rightarrow> datetime" where
  "py_min d [] = d"
| "py_min d (x # xs) = py_min (if dt_instant x < dt_instant d then x else d) xs"

definition earliest :: "datetime list \<Rightarrow> datetime option" where
  "earliest history_times =
     (case history_times of [] \<Rightarrow> None | d # ds \<Rightarrow> Some (py_min d ds))"

subsection \<open>Other extractors of etl/normalizers/base.py\<close>

definition map_item_type :: "json \<Rightarrow> exn + string" where
  "map_item_type name =
     ebind (jlower (por name (JStr ''''))) (\<lambda>n.
       Inr (if str_in ''bug'' n then ''bug''
            else if str_in ''sub-task'' n \<or> str_in ''subtask'' n then ''subtask''
            else if str_in ''epic'' n then ''epic''
            else if str_in ''task'' n then ''task''
            else ''story''))"

text \<open>\<open>contains_blocked(status_name, labels)\<close>: the loop returns at the first label
  that contains "block", before it looks at the labels after it.\<close>

fun any_blocked :: "json list \<Rightarrow> exn + bool" where
  "any_blocked [] = Inr False"
| "any_blocked (l # ls) =
     ebind (jlower (por l (JStr ''''))) (\<lambda>n.
       if str_in ''block'' n then Inr True else any_blocked ls)"

definition contains_blocked :: "json \<Rightarrow> json \<Rightarrow> exn + bool" where
  "contains_blocked status_name labels =
     ebind (jlower (por status_name (JStr ''''))) (\<lambda>sn.
       if str_in ''block'' sn then Inr True
       else ebind (iter (por labels (JArr []))) any_blocked)"

section \<open>The active mapping configuration and the work item table\<close>

text \<open>
  \<open>cfg(path, default)\<close> of etl/normalizers/base.py, on the configuration document of the
  active mapping version (the empty dictionary when there is none).
\<close>

fun cfg :: "json \<Rightarrow> string list \<Rightarrow> json \<Rightarrow> json" where
  "cfg node [] dflt = (if node \<noteq> JNull then node else dflt)"
| "cfg (JObj kvs) (key # path) dflt =
     (case map_of kvs key of
        None \<Rightarrow> dflt
      | Some v \<Rightarrow> if v = JNull then dflt else cfg v path dflt)"
| "cfg _ (key # path) dflt = dflt"

record Board =
  b_id :: nat
  b_client_id :: "string option"

record RawPayload =
  rp_source :: string
  rp_object_type :: string
  rp_payload :: json

text \<open>
  One row of \<open>metrics.models.WorkItem\<close>, with every column of the model. Datetime
  columns hold instants; \<open>last_synced\<close> is declared \<open>auto_now=True\<close> and is set to the
  clock by every \<open>save\<close>. Foreign keys hold primary keys.
\<close>

record WorkItem =
  wi_source :: string
  wi_source_id :: string
  wi_board :: nat
  wi_title :: string
  wi_description :: "string option"
  wi_item_type :: string
  wi_story_points :: "rat option"
  wi_sprint_id :: "string option"
  wi_release_id :: "string option"
  wi_client_id :: "string option"
  wi_assignees :: "string list"
  wi_dev_owner :: "string option"
  wi_qa_owner :: "string option"
  wi_code_reviewer_ids :: "string list"
  wi_status :: string
  wi_created_at :: "int option"
  wi_started_at :: "int option"
  wi_dev_started_at :: "int option"
  wi_dev_done_at :: "int option"
  wi_deployed_dev_at :: "int option"
  wi_ready_for_qa_at :: "int option"
  wi_qa_started_at :: "int option"
  wi_qa_verified_at :: "int option"
  wi_signed_off_at :: "int option"
  wi_ready_for_uat_at :: "int option"
  wi_deployed_uat_at :: "int option"
  wi_done_at :: "int option"
  wi_cancelled_at :: "int option"
  wi_closed :: bool
  wi_blocked_flag :: bool
  wi_blocked_since :: "int option"
  wi_blocked_reason :: "string option"
  wi_parent_story :: "nat option"
  wi_linked_prs :: json
  wi_meta :: json
  wi_last_synced :: int

text \<open>
  The row that \<open>create\<close> starts from: the lookup fields and the defaults of the model.
  \<open>board\<close>, \<open>title\<close> and \<open>item_type\<close> have no default in the model; every caller of
  \<open>create\<close> below supplies them, so their placeholders never reach the table.
\<close>

definition WorkItem_blank :: "string \<Rightarrow> string \<Rightarrow> WorkItem" where
  "WorkItem_blank source source_id =
     \<lparr>wi_source = source, wi_source_id = source_id, wi_board = 0, wi_title = [],
      wi_description = None, wi_item_type = [], wi_story_points = None,
      wi_sprint_id = None, wi_release_id = None, wi_client_id = None,
      wi_assignees = [], wi_dev_owner = None, wi_qa_owner = None,
      wi_code_reviewer_ids = [], wi_status = ''backlog'', wi_created_at = None,
      wi_started_at = None, wi_dev_started_at = None, wi_dev_done_at = None,
      wi_deployed_dev_at = None, wi_ready_for_qa_at = None, wi_qa_started_at = None,
      wi_qa_verified_at = None, wi_signed_off_at = None, wi_ready_for_uat_at = None,
      wi_deployed_uat_at = None, wi_done_at = None, wi_cancelled_at = None,
      wi_closed = False, wi_blocked_flag = False, wi_blocked_since = None,
      wi_blocked_reason = None, wi_parent_story = None, wi_linked_prs = JArr [],
      wi_meta = JObj [], wi_last_synced = 0\<rparr>"

text \<open>
  The state that a normalizer run works on: the table (a list of rows, the primary key
  of a row being its position) and the number of clock readings taken so far. The
  clock itself is a parameter: its \<open>n\<close>-th reading is \<open>clock n\<close>.
\<close>

type_synonym wstate = "WorkItem list \<times> nat"

text \<open>\<open>timezone.now()\<close>\<close>

definition timezone_now :: "(nat \<Rightarrow> int) \<Rightarrow> wstate \<Rightarrow> int \<times> wstate" where
  "timezone_now clock st = (clock (snd st), (fst st, Suc (snd st)))"

text \<open>\<open>WorkItem.objects.filter(source=source, source_id=source_id)\<close>, as primary keys in
  the order of the primary key.\<close>

definition wi_matches :: "WorkItem list \<Rightarrow> string \<Rightarrow> string \<Rightarrow> nat list" where
  "wi_matches rows source source_id =
     filter (\<lambda>i. wi_source (rows ! i) = source \<and> wi_source_id (rows ! i) = source_id)
       [0..<length rows]"

text \<open>\<open>create\<close>: \<open>source_id\<close> is declared \<open>unique=True\<close> on its own, so the insert fails
  when any row, of whatever source, has the same \<open>source_id\<close>.\<close>

definition wi_create :: "(nat \<Rightarrow> int) \<Rightarrow> wstate \<Rightarrow> WorkItem \<Rightarrow> exn + nat \<times> wstate" where
  "wi_create clock st row =
     (if wi_source_id row \<in> set (map wi_source_id (fst st)) then Inl IntegrityError
      else case timezone_now clock st of
        (t, st') \<Rightarrow> Inr (length (fst st'), (fst st' @ [row\<lparr>wi_last_synced := t\<rparr>], snd st')))"

text \<open>\<open>get_or_create(source=..., source_id=..., defaults=...)\<close>; \<open>defaults\<close> is the
  assignment of the default fields to a row.\<close>

definition wi_get_or_create ::
  "(nat \<Rightarrow> int) \<Rightarrow> wstate \<Rightarrow> string \<Rightarrow> string \<Rightarrow> (WorkItem \<Rightarrow> WorkItem) \<Rightarrow> exn + nat \<times> wstate" where
  "wi_get_or_create clock st source source_id defaults =
     (case wi_matches (fst st) source source_id of
        [] \<Rightarrow> wi_create clock st (defaults (WorkItem_blank source source_id))
      | [i] \<Rightarrow> Inr (i, st)
      | _ \<Rightarrow> Inl MultipleObjectsReturned)"

text \<open>\<open>update_or_create(source=..., source_id=..., defaults=...)\<close>: an existing row gets
  every default field assigned and is saved.\<close>

definition wi_update_or_create ::
  "(nat \<Rightarrow> int) \<Rightarrow> wstate \<Rightarrow> string \<Rightarrow> string \<Rightarrow> (WorkItem \<Rightarrow> WorkItem) \<Rightarrow> exn + nat \<times> wstate" where
  "wi_update_or_create clock st source source_id defaults =
     (case wi_matches (fst st) source source_id of
        [] \<Rightarrow> wi_create clock st (defaults (WorkItem_blank source source_id))
      | [i] \<Rightarrow>
          (case timezone_now clock st of
             (t, st') \<Rightarrow>
               Inr (i, ((fst st')[i := (defaults (fst st' ! i))\<lparr>wi_last_synced := t\<rparr>], snd st')))
      | _ \<Rightarrow> Inl MultipleObjectsReturned)"

text \<open>\<open>upsert_parent(board, source, parent_key)\<close>\<close>

definition upsert_parent ::
  "pylib \<Rightarrow> (nat \<Rightarrow> int) \<Rightarrow> wstate \<Rightarrow> Board \<Rightarrow> string \<Rightarrow> json \<Rightarrow> exn + nat option \<times> wstate" where
  "upsert_parent L clock st board source parent_key =
     (if \<not> truthy parent_key then Inr (None, st)
      else ebind (wi_get_or_create clock st source (py_str L parent_key)
                   (\<lambda>row. row\<lparr>wi_board := b_id board,
                               wi_title := ''Parent '' @ py_str L parent_key,
                               wi_item_type := ''story''\<rparr>))
             (\<lambda>(parent, st'). Inr (Some parent, st')))"

section \<open>The Jira normalizer (etl/normalizers/jira.py)\<close>

text \<open>A loop that maps a function that may raise over a list.\<close>

fun emap :: "('a \<Rightarrow> exn + 'b) \<Rightarrow> 'a list \<Rightarrow> exn + 'b list" where
  "emap f [] = Inr []"
| "emap f (x # xs) = ebind (f x) (\<lambda>y. ebind (emap f xs) (\<lambda>ys. Inr (y # ys)))"

text \<open>\<open>d.get(k)\<close> where the key is itself an object read from a document: a list or a
  \<open>dict\<close> is not hashable, and no other key than a string is in a JSON \<open>dict\<close>.\<close>

fun dget_key :: "json \<Rightarrow> json \<Rightarrow> exn + json" where
  "dget_key (JObj kvs) (JStr k) = Inr (case map_of kvs k of None \<Rightarrow> JNull | Some v \<Rightarrow> v)"
| "dget_key (JObj kvs) (JArr xs) = Inl TypeError"
| "dget_key (JObj kvs) (JObj ys) = Inl TypeError"
| "dget_key (JObj kvs) _ = Inr JNull"
| "dget_key _ _ = Inl AttributeError"

record JiraNormalizer =
  jn_board :: Board
  jn_points_field :: json
  jn_status_map :: json

text \<open>\<open>JiraNormalizer.__init__\<close>, on the configuration document of the active mapping.\<close>

definition JiraNormalizer_init :: "json \<Rightarrow> Board \<Rightarrow> JiraNormalizer" where
  "JiraNormalizer_init config board =
     \<lparr>jn_board = board,
      jn_points_field = cfg config [''jira'', ''points_field''] (JStr ''customfield_10016''),
      jn_status_map = por (cfg config [''jira'', ''status_map''] (JObj [])) (JObj [])\<rparr>"

text \<open>The body of the inner loop of \<open>_status_time\<close>, for one changelog item.\<close>

definition status_item ::
  "string list \<Rightarrow> datetime option \<Rightarrow> json \<Rightarrow> datetime list \<Rightarrow> exn + datetime list" where
  "status_item targets_lower when item hits =
     ebind (dget item ''field'') (\<lambda>field.
       if field = JStr ''status'' then
         ebind (dget item ''toString'') (\<lambda>ts.
         ebind (jlower (por ts (JStr ''''))) (\<lambda>to_name.
           case when of
             Some w \<Rightarrow> Inr (if to_name \<in> set targets_lower then hits @ [w] else hits)
           | None \<Rightarrow> Inr hits))
       else Inr hits)"

text \<open>The body of the outer loop, for one changelog entry.\<close>

definition status_history ::
  "pylib \<Rightarrow> string list \<Rightarrow> json \<Rightarrow> datetime list \<Rightarrow> exn + datetime list" where
  "status_history L targets_lower h hits =
     ebind (dget h ''created'') (\<lambda>created.
     ebind (to_dt L created) (\<lambda>when.
     ebind (dget_d h ''items'' (JArr [])) (\<lambda>items0.
     ebind (iter (por items0 (JArr []))) (\<lambda>items.
       efold (status_item targets_lower when) items hits))))"

text \<open>\<open>JiraNormalizer._status_time(issue, targets)\<close>\<close>

definition status_time :: "pylib \<Rightarrow> json \<Rightarrow> json \<Rightarrow> exn + datetime option" where
  "status_time L issue targets =
     ebind (iter (por targets (JArr []))) (\<lambda>ts.
     ebind (emap jlower ts) (\<lambda>targets_lower.
     ebind (dget (por issue (JObj [])) ''changelog'') (\<lambda>changelog.
     ebind (dget_d (por changelog (JObj [])) ''histories'' (JArr [])) (\<lambda>histories0.
     ebind (iter (por histories0 (JArr []))) (\<lambda>histories.
     ebind (efold (status_history L targets_lower) histories []) (\<lambda>hits.
       Inr (earliest hits)))))))"

text \<open>\<open>self._status_time(issue, self.status_map.get(step, []))\<close>\<close>

definition step_time :: "pylib \<Rightarrow> JiraNormalizer \<Rightarrow> json \<Rightarrow> string \<Rightarrow> exn + datetime option" where
  "step_time L self issue step =
     ebind (dget_d (jn_status_map self) step (JArr [])) (status_time L issue)"

text \<open>The sprint id, lines 59 to 68 of \<open>normalize\<close>.\<close>

definition jira_sprint_id :: "pylib \<Rightarrow> json \<Rightarrow> exn + string option" where
  "jira_sprint_id L flds =
     ebind (dget flds ''sprint'') (\<lambda>sprint_obj.
       case sprint_obj of
         JObj kvs \<Rightarrow>
           ebind (dget sprint_obj ''id'') (\<lambda>i.
           ebind (dget sprint_obj ''name'') (\<lambda>n.
             Inr (Some (py_str L (por (por i n) (JStr ''''))))))
       | _ \<Rightarrow>
           ebind (dget flds ''customfield_10020'') (\<lambda>cf.
             case por sprint_obj cf of
               JArr sprints \<Rightarrow>
                 (if sprints = [] then Inr None
                  else (case last sprints of
                          JObj kvs \<Rightarrow>
                            ebind (dget (last sprints) ''id'') (\<lambda>i.
                              Inr (Some (py_str L (por i (JStr '''')))))
                        | s0 \<Rightarrow> Inr (Some (py_str L (por s0 (JStr ''''))))))
             | _ \<Rightarrow> Inr None))"

text \<open>The local variables of \<open>normalize\<close> that are computed from the payload alone,
  lines 38 to 90.\<close>

record jira_locals =
  jl_key :: json
  jl_title :: json
  jl_itype :: string
  jl_assignees :: "json list"
  jl_dev_owner :: "json option"
  jl_story_points :: "rat option"
  jl_sprint_id :: "string option"
  jl_status_name :: json
  jl_created_at :: "datetime option"
  jl_dev_started_at :: "datetime option"
  jl_dev_done_at :: "datetime option"
  jl_ready_for_qa_at :: "datetime option"
  jl_qa_started_at :: "datetime option"
  jl_qa_verified_at :: "datetime option"
  jl_signed_off_at :: "datetime option"
  jl_ready_for_uat_at :: "datetime option"
  jl_deployed_uat_at :: "datetime option"
  jl_done_at :: "datetime option"
  jl_blocked_flag :: bool
  jl_parent_key :: json

definition jira_extract ::
  "pylib \<Rightarrow> JiraNormalizer \<Rightarrow> json \<Rightarrow> json \<Rightarrow> json \<Rightarrow> exn + jira_locals" where
  "jira_extract L self issue flds key =
     ebind (dget flds ''summary'') (\<lambda>summary.
     ebind (dget flds ''issuetype'') (\<lambda>issuetype.
     ebind (dget (por issuetype (JObj [])) ''name'') (\<lambda>itname.
     ebind (map_item_type itname) (\<lambda>itype.
     ebind (dget flds ''assignee'') (\<lambda>assignee0.
     ebind (dget (por assignee0 (JObj [])) ''displayName'') (\<lambda>a1.
     ebind (dget (por assignee0 (JObj [])) ''emailAddress'') (\<lambda>a2.
     ebind (dget (por assignee0 (JObj [])) ''accountId'') (\<lambda>a3.
     ebind (dget_key flds (jn_points_field self)) (\<lambda>sp.
     ebind (jira_sprint_id L flds) (\<lambda>sprint_id.
     ebind (dget flds ''status'') (\<lambda>status0.
     ebind (dget (por status0 (JObj [])) ''name'') (\<lambda>sname.
     ebind (dget flds ''labels'') (\<lambda>labels0.
     ebind (dget flds ''created'') (\<lambda>c.
     ebind (to_dt L c) (\<lambda>created_at.
     ebind (dget flds ''updated'') (\<lambda>u.
     ebind (to_dt L u) (\<lambda>updated_at.
     ebind (dget flds ''resolutiondate'') (\<lambda>r.
     ebind (to_dt L r) (\<lambda>resolutiondate.
     ebind (step_time L self issue ''dev_started'') (\<lambda>dev_started_at.
     ebind (step_time L self issue ''dev_done'') (\<lambda>dev_done_at.
     ebind (step_time L self issue ''ready_for_qa'') (\<lambda>ready_for_qa_at.
     ebind (step_time L self issue ''qa_started'') (\<lambda>qa_started_at.
     ebind (step_time L self issue ''qa_verified'') (\<lambda>qa_verified_at.
     ebind (step_time L self issue ''signed_off'') (\<lambda>signed_off_at.
     ebind (step_time L self issue ''ready_for_uat'') (\<lambda>ready_for_uat_at.
     ebind (step_time L self issue ''deployed_uat'') (\<lambda>deployed_uat_at.
     ebind (case resolutiondate of
              Some d \<Rightarrow> Inr (Some d)
            | None \<Rightarrow> step_time L self issue ''done'') (\<lambda>done_at.
     ebind (contains_blocked (por sname (JStr '''')) (por labels0 (JArr []))) (\<lambda>blocked_flag.
     ebind (dget flds ''parent'') (\<lambda>parent0.
     ebind (dget (por parent0 (JObj [])) ''key'') (\<lambda>parent_key.
       Inr \<lparr>jl_key = key,
            jl_title = por summary (JStr ''Untitled''),
            jl_itype = itype,
            jl_assignees = filter truthy [por (por a1 a2) a3],
            jl_dev_owner = (if filter truthy [por (por a1 a2) a3] = [] then None
                            else Some (hd (filter truthy [por (por a1 a2) a3]))),
            jl_story_points = (if sp = JNull then None
                               else case py_float L sp of Inl e \<Rightarrow> None | Inr q \<Rightarrow> Some q),
            jl_sprint_id = sprint_id,
            jl_status_name = por sname (JStr ''''),
            jl_created_at = created_at,
            jl_dev_started_at = dev_started_at,
            jl_dev_done_at = dev_done_at,
            jl_ready_for_qa_at = ready_for_qa_at,
            jl_qa_started_at = qa_started_at,
            jl_qa_verified_at = qa_verified_at,
            jl_signed_off_at = signed_off_at,
            jl_ready_for_uat_at = ready_for_uat_at,
            jl_deployed_uat_at = deployed_uat_at,
            jl_done_at = done_at,
            jl_blocked_flag = blocked_flag,
            jl_parent_key = parent_key\<rparr>)))))))))))))))))))))))))))))))"

text \<open>
  The \<open>defaults\<close> dictionary, lines 93 to 120, as the assignment of its flds to a row.
  Character columns store \<open>str\<close> of what they are given, datetime columns the instant.
\<close>

definition jira_defaults ::
  "pylib \<Rightarrow> JiraNormalizer \<Rightarrow> jira_locals \<Rightarrow> nat option \<Rightarrow> json \<Rightarrow> json \<Rightarrow> WorkItem \<Rightarrow> WorkItem" where
  "jira_defaults L self l parent_story description project_key row =
     row\<lparr>wi_board := b_id (jn_board self),
         wi_title := py_str L (jl_title l),
         wi_description := Some (py_str L (por description (JStr ''''))),
         wi_item_type := jl_itype l,
         wi_story_points := jl_story_points l,
         wi_sprint_id := jl_sprint_id l,
         wi_client_id := b_client_id (jn_board self),
         wi_assignees := map (py_str L) (jl_assignees l),
         wi_dev_owner := map_option (py_str L) (jl_dev_owner l),
         wi_status := py_str L (por (jl_status_name l) (JStr ''backlog'')),
         wi_created_at := map_option dt_instant (jl_created_at l),
         wi_started_at := map_option dt_instant
            (case jl_dev_started_at l of Some d \<Rightarrow> Some d | None \<Rightarrow> jl_created_at l),
         wi_dev_started_at := map_option dt_instant (jl_dev_started_at l),
         wi_dev_done_at := map_option dt_instant (jl_dev_done_at l),
         wi_deployed_dev_at := None,
         wi_ready_for_qa_at := map_option dt_instant (jl_ready_for_qa_at l),
         wi_qa_started_at := map_option dt_instant (jl_qa_started_at l),
         wi_qa_verified_at := map_option dt_instant (jl_qa_verified_at l),
         wi_signed_off_at := map_option dt_instant (jl_signed_off_at l),
         wi_ready_for_uat_at := map_option dt_instant (jl_ready_for_uat_at l),
         wi_deployed_uat_at := map_option dt_instant (jl_deployed_uat_at l),
         wi_done_at := map_option dt_instant (jl_done_at l),
         wi_blocked_flag := jl_blocked_flag l,
         wi_parent_story := parent_story,
         wi_meta := JObj [(''project'', project_key)],
         wi_closed := (jl_done_at l \<noteq> None)\<rparr>"

text \<open>
  Lines 122 to 137: the value of \<open>defaults["blocked_since"]\<close>, from the row read under
  the lock (\<open>None\<close> when there is none), the new blocked flag and the clock. The clock is
  read only where the source calls \<open>timezone.now()\<close>.
\<close>

definition jira_blocked_since ::
  "(nat \<Rightarrow> int) \<Rightarrow> wstate \<Rightarrow> WorkItem option \<Rightarrow> bool \<Rightarrow> int option \<times> wstate" where
  "jira_blocked_since clock st existing blocked_flag =
     (case existing of
        Some e \<Rightarrow>
          (if blocked_flag \<and> \<not> wi_blocked_flag e then
             (case timezone_now clock st of (t, st') \<Rightarrow> (Some t, st'))
           else if blocked_flag \<and> wi_blocked_flag e then
             (case wi_blocked_since e of
                Some b \<Rightarrow> (Some b, st)
              | None \<Rightarrow> (case timezone_now clock st of (t, st') \<Rightarrow> (Some t, st')))
           else (None, st))
      | None \<Rightarrow>
          (if blocked_flag then (case timezone_now clock st of (t, st') \<Rightarrow> (Some t, st'))
           else (None, st)))"

text \<open>
  The body of the loop of \<open>normalize\<close> for one raw payload: the new state and whether
  the record was counted. When the body raises, the rows it had written before stay in
  the table; the model does not keep the table of a run that raised.
\<close>

definition jira_normalize_one ::
  "pylib \<Rightarrow> (nat \<Rightarrow> int) \<Rightarrow> JiraNormalizer \<Rightarrow> RawPayload \<Rightarrow> wstate \<Rightarrow> exn + bool \<times> wstate" where
  "jira_normalize_one L clock self rp st =
     (if rp_source rp \<noteq> ''jira'' \<or> rp_object_type rp \<noteq> ''issue'' then Inr (False, st)
      else
        (let issue = por (rp_payload rp) (JObj []) in
         ebind (dget issue ''fields'') (\<lambda>flds0.
         let flds = por flds0 (JObj []) in
         ebind (dget issue ''key'') (\<lambda>k1.
         ebind (dget issue ''id'') (\<lambda>k2.
         let key = por k1 k2 in
         if \<not> truthy key then Inr (False, st)
         else
           ebind (jira_extract L self issue flds key) (\<lambda>l.
           ebind (upsert_parent L clock st (jn_board self) ''jira'' (jl_parent_key l))
             (\<lambda>(parent_story, st1).
           ebind (dget flds ''description'') (\<lambda>description.
           ebind (dget flds ''project'') (\<lambda>project0.
           ebind (dget (por project0 (JObj [])) ''key'') (\<lambda>project_key.
           let existing = (case wi_matches (fst st1) ''jira'' (py_str L key) of
                             [] \<Rightarrow> None | i # rest \<Rightarrow> Some (fst st1 ! i))
           in case jira_blocked_since clock st1 existing (jl_blocked_flag l) of
                (blocked_since, st2) \<Rightarrow>
                  ebind (wi_update_or_create clock st2 ''jira'' (py_str L key)
                          (\<lambda>row. (jira_defaults L self l parent_story description project_key row)
                                   \<lparr>wi_blocked_since := blocked_since\<rparr>))
                    (\<lambda>(i, st3). Inr (True, st3))))))))))))"

text \<open>\<open>JiraNormalizer.normalize(raw_items)\<close>: the count and the new state.\<close>

fun jira_normalize ::
  "pylib \<Rightarrow> (nat \<Rightarrow> int) \<Rightarrow> JiraNormalizer \<Rightarrow> RawPayload list \<Rightarrow> nat \<times> wstate \<Rightarrow>
   exn + nat \<times> wstate" where
  "jira_normalize L clock self [] (count, st) = Inr (count, st)"
| "jira_normalize L clock self (rp # raw_items) (count, st) =
     ebind (jira_normalize_one L clock self rp st) (\<lambda>(counted, st').
       jira_normalize L clock self raw_items (if counted then Suc count else count, st'))"

text \<open>
  Successive runs of \<open>normalize\<close>, each on one raw payload (a fetched copy of an issue):
  the count that each run returns and the state after it.
\<close>

fun jira_runs ::
  "pylib \<Rightarrow> (nat \<Rightarrow> int) \<Rightarrow> JiraNormalizer \<Rightarrow> RawPayload list \<Rightarrow> wstate \<Rightarrow>
   exn + (nat \<times> wstate) list" where
  "jira_runs L clock self [] st = Inr []"
| "jira_runs L clock self (rp # rps) st =
     ebind (jira_normalize L clock self [rp] (0, st)) (\<lambda>(n, st').
     ebind (jira_runs L clock self rps st') (\<lambda>trace. Inr ((n, st') # trace)))"

section \<open>The ClickUp normalizer (etl/normalizers/clickup.py)\<close>

record ClickUpNormalizer =
  cn_board :: Board
  cn_points_field_name :: string

text \<open>\<open>ClickUpNormalizer.__init__\<close>\<close>

definition ClickUpNormalizer_init :: "json \<Rightarrow> Board \<Rightarrow> exn + ClickUpNormalizer" where
  "ClickUpNormalizer_init config board =
     ebind (jlower (por (cfg config [''clickup'', ''points_field_name''] (JStr ''Story Points''))
                        (JStr '''')))
       (\<lambda>n. Inr \<lparr>cn_board = board, cn_points_field_name = n\<rparr>)"

text \<open>\<open>_points_from_custom(cf_list)\<close>, on the elements of \<open>cf_list or []\<close>.\<close>

fun points_from_custom :: "pylib \<Rightarrow> ClickUpNormalizer \<Rightarrow> json list \<Rightarrow> exn + rat option" where
  "points_from_custom L self [] = Inr None"
| "points_from_custom L self (cf # cfs) =
     ebind (dget cf ''name'') (\<lambda>n0.
     ebind (jlower (por n0 (JStr ''''))) (\<lambda>name.
       if name = cn_points_field_name self then
         ebind (dget cf ''value'') (\<lambda>val.
           Inr (if val = JNull then None
                else case py_float L val of Inl e \<Rightarrow> None | Inr q \<Rightarrow> Some q))
       else points_from_custom L self cfs))"

text \<open>The loop that collects the assignees, lines 38 to 41.\<close>

fun clickup_assignees :: "pylib \<Rightarrow> json list \<Rightarrow> exn + string list" where
  "clickup_assignees L [] = Inr []"
| "clickup_assignees L (a # as) =
     ebind (dget a ''username'') (\<lambda>u.
     ebind (dget a ''email'') (\<lambda>e.
     ebind (dget a ''id'') (\<lambda>i.
     ebind (clickup_assignees L as) (\<lambda>rest.
       Inr (if truthy (por (por u e) i) then py_str L (por (por u e) i) # rest else rest)))))"

text \<open>The loop that looks for the sprint, lines 51 to 57; it stops at the first custom
  field named "sprint" or "iteration".\<close>

fun clickup_sprint_id :: "pylib \<Rightarrow> json list \<Rightarrow> exn + string option" where
  "clickup_sprint_id L [] = Inr None"
| "clickup_sprint_id L (cf # cfs) =
     ebind (dget cf ''name'') (\<lambda>n0.
     ebind (jlower (por n0 (JStr ''''))) (\<lambda>name.
       if name = ''sprint'' \<or> name = ''iteration'' then
         ebind (dget cf ''value'') (\<lambda>v.
           if truthy v then
             (case v of
                JObj kvs \<Rightarrow> ebind (dget v ''id'') (\<lambda>i. Inr (Some (py_str L i)))
              | _ \<Rightarrow> Inr (Some (py_str L v)))
           else Inr None)
       else clickup_sprint_id L cfs))"

text \<open>The \<open>defaults\<close> dictionary of lines 62 to 77, as the assignment of its fields to a
  row.\<close>

definition clickup_defaults ::
  "pylib \<Rightarrow> ClickUpNormalizer \<Rightarrow> json \<Rightarrow> string \<Rightarrow> rat option \<Rightarrow> string option \<Rightarrow> string list \<Rightarrow>
   json \<Rightarrow> datetime option \<Rightarrow> datetime option \<Rightarrow> json \<Rightarrow> WorkItem \<Rightarrow> WorkItem" where
  "clickup_defaults L self title itype story_points sprint_id assignees status_name
      created_at done_at list_id row =
     row\<lparr>wi_board := b_id (cn_board self),
         wi_title := py_str L title,
         wi_item_type := itype,
         wi_story_points := story_points,
         wi_sprint_id := sprint_id,
         wi_client_id := b_client_id (cn_board self),
         wi_assignees := assignees,
         wi_dev_owner := (case assignees of [] \<Rightarrow> None | a # as \<Rightarrow> Some a),
         wi_status := py_str L (por status_name (JStr ''backlog'')),
         wi_created_at := map_option dt_instant created_at,
         wi_started_at := map_option dt_instant created_at,
         wi_done_at := map_option dt_instant done_at,
         wi_closed := (done_at \<noteq> None),
         wi_meta := JObj [(''list_id'', list_id)]\<rparr>"

text \<open>The body of the loop of \<open>normalize\<close> for one raw payload.\<close>

definition clickup_normalize_one ::
  "pylib \<Rightarrow> (nat \<Rightarrow> int) \<Rightarrow> ClickUpNormalizer \<Rightarrow> RawPayload \<Rightarrow> wstate \<Rightarrow> exn + bool \<times> wstate" where
  "clickup_normalize_one L clock self rp st =
     (if rp_source rp \<noteq> ''clickup'' \<or> rp_object_type rp \<noteq> ''task'' then Inr (False, st)
      else
        (let t = por (rp_payload rp) (JObj []) in
         ebind (dget t ''id'') (\<lambda>tid.
         if \<not> truthy tid then Inr (False, st)
         else
           ebind (dget t ''name'') (\<lambda>name0.
           let title = por name0 (JStr ''Untitled'') in
           ebind (dget t ''status'') (\<lambda>status0.
           ebind (dget (por status0 (JObj [])) ''status'') (\<lambda>status1.
           let status_name = por status1 (JStr '''') in
           ebind (jlower title) (\<lambda>title_lower.
           let itype = (if str_in ''bug'' title_lower then ''bug'' else ''story'') in
           ebind (dget t ''assignees'') (\<lambda>as0.
           ebind (iter (por as0 (JArr []))) (\<lambda>as.
           ebind (clickup_assignees L as) (\<lambda>assignees.
           ebind (dget t ''date_created'') (\<lambda>dc.
           ebind (to_dt L dc) (\<lambda>created_at.
           ebind (dget t ''date_updated'') (\<lambda>du.
           ebind (to_dt L du) (\<lambda>updated_at.
           ebind (dget t ''date_closed'') (\<lambda>dcl.
           ebind (to_dt L dcl) (\<lambda>done_at.
           ebind (dget t ''custom_fields'') (\<lambda>cf0.
           ebind (iter (por cf0 (JArr []))) (\<lambda>cfs.
           ebind (points_from_custom L self cfs) (\<lambda>story_points.
           ebind (clickup_sprint_id L cfs) (\<lambda>sprint_id.
           ebind (dget t ''list'') (\<lambda>list0.
           ebind (dget (por list0 (JObj [])) ''id'') (\<lambda>list_id.
           ebind (wi_update_or_create clock st ''clickup'' (py_str L tid)
                   (clickup_defaults L self title itype story_points sprint_id assignees
                      status_name created_at done_at list_id))
             (\<lambda>(i, st'). Inr (True, st'))))))))))))))))))))))))"

text \<open>\<open>ClickUpNormalizer.normalize(raw_items)\<close>\<close>

fun clickup_normalize ::
  "pylib \<Rightarrow> (nat \<Rightarrow> int) \<Rightarrow> ClickUpNormalizer \<Rightarrow> RawPayload list \<Rightarrow> nat \<times> wstate \<Rightarrow>
   exn + nat \<times> wstate" where
  "clickup_normalize L clock self [] (count, st) = Inr (count, st)"
| "clickup_normalize L clock self (rp # raw_items) (count, st) =
     ebind (clickup_normalize_one L clock self rp st) (\<lambda>(counted, st').
       clickup_normalize L clock self raw_items (if counted then Suc count else count, st'))"

section \<open>Remediation tickets (etl/validator.py)\<close>

datatype RemediationStatus = OPEN | IN_PROGRESS | DONE

text \<open>
  One row of \<open>metrics.models.RemediationTicket\<close>. The table is a list of rows; the
  primary key of a row is its position in the list (rows are appended by \<open>create\<close> and
  never deleted by this code). Boards and work items are referred to by their primary
  keys, datetimes are instants (microseconds since the epoch), and the \<open>meta\<close>
  dictionary is a finite map, so that equality is Python's equality of dictionaries.
\<close>

record RemediationTicket =
  rt_board :: nat
  rt_work_item :: "nat option"
  rt_rule_code :: string
  rt_message :: string
  rt_status :: RemediationStatus
  rt_created_at :: int
  rt_resolved_at :: "int option"
  rt_meta :: "string \<rightharpoonup> json"

text \<open>\<open>.filter(board=board, work_item=work_item, rule_code=rule_code)\<close>\<close>

definition same_key :: "nat \<Rightarrow> nat option \<Rightarrow> string \<Rightarrow> RemediationTicket \<Rightarrow> bool" where
  "same_key board work_item rule_code rt \<longleftrightarrow>
     rt_board rt = board \<and> rt_work_item rt = work_item \<and> rt_rule_code rt = rule_code"

text \<open>\<open>.filter(...).exclude(status=RemediationStatus.DONE)\<close>: the primary keys of the
  matching rows.\<close>

definition open_rows :: "RemediationTicket list \<Rightarrow> nat \<Rightarrow> nat option \<Rightarrow> string \<Rightarrow> nat list" where
  "open_rows ts board work_item rule_code =
     filter (\<lambda>i. same_key board work_item rule_code (ts ! i) \<and> rt_status (ts ! i) \<noteq> DONE)
       [0..<length ts]"

text \<open>\<open>.order_by("-created_at").first()\<close>: the row created last; among rows created at
  the same instant the database is free to pick any, here the one stored first.\<close>

fun newest :: "RemediationTicket list \<Rightarrow> nat list \<Rightarrow> nat option" where
  "newest ts [] = None"
| "newest ts (i # rest) =
     (case newest ts rest of
        None \<Rightarrow> Some i
      | Some j \<Rightarrow> if rt_created_at (ts ! i) < rt_created_at (ts ! j) then Some j else Some i)"

text \<open>
  \<open>open_ticket(board, work_item, rule_code, message, meta=None)\<close>, at the instant
  \<open>now\<close>. Returns the new table and the primary key of the ticket it returns.
\<close>

definition open_ticket ::
  "RemediationTicket list \<Rightarrow> int \<Rightarrow> nat \<Rightarrow> nat option \<Rightarrow> string \<Rightarrow> string \<Rightarrow>
   (string \<rightharpoonup> json) option \<Rightarrow> RemediationTicket list \<times> nat" where
  "open_ticket ts now board work_item rule_code message meta0 =
     (let meta = (case meta0 of None \<Rightarrow> Map.empty | Some m \<Rightarrow> m) in
      case newest ts (open_rows ts board work_item rule_code) of
        Some i \<Rightarrow>
          (let rt = ts ! i;
               c1 = (rt_message rt \<noteq> message);
               rt1 = (if c1 then rt\<lparr>rt_message := message\<rparr> else rt);
               c2 = (meta \<noteq> Map.empty \<and> rt_meta rt1 \<noteq> meta);
               rt2 = (if c2 then rt1\<lparr>rt_meta := meta\<rparr> else rt1)
           in (if c1 \<or> c2
               then ts[i := (ts ! i)\<lparr>rt_message := rt_message rt2, rt_meta := rt_meta rt2\<rparr>]
               else ts, i))
      | None \<Rightarrow>
          (ts @ [\<lparr>rt_board = board, rt_work_item = work_item, rt_rule_code = rule_code,
                  rt_message = message, rt_status = OPEN, rt_created_at = now,
                  rt_resolved_at = None, rt_meta = meta\<rparr>],
           length ts))"

text \<open>\<open>resolve_ticket_if_any(board, work_item, rule_code)\<close>: every matching row that is
  not done becomes done, resolved at \<open>now\<close>.\<close>

definition resolve_ticket_if_any ::
  "RemediationTicket list \<Rightarrow> int \<Rightarrow> nat \<Rightarrow> nat option \<Rightarrow> string \<Rightarrow> RemediationTicket list" where
  "resolve_ticket_if_any ts now board work_item rule_code =
     map (\<lambda>rt. if same_key board work_item rule_code rt \<and> rt_status rt \<noteq> DONE
                then rt\<lparr>rt_status := DONE, rt_resolved_at := Some now\<rparr> else rt) ts"

text \<open>Calling \<open>open_ticket\<close> several times in a row for one key; each call has its own
  clock reading, message and \<open>meta\<close> argument.\<close>

fun open_ticket_calls ::
  "RemediationTicket list \<Rightarrow> nat \<Rightarrow> nat option \<Rightarrow> string \<Rightarrow>
   (int \<times> string \<times> (string \<rightharpoonup> json) option) list \<Rightarrow> RemediationTicket list" where
  "open_ticket_calls ts board work_item rule_code [] = ts"
| "open_ticket_calls ts board work_item rule_code ((now, message, meta0) # calls) =
     open_ticket_calls (fst (open_ticket ts now board work_item rule_code message meta0))
       board work_item rule_code calls"

section \<open>Pull requests (etl/normalizers/github.py)\<close>

text \<open>
  \<open>a == b\<close> on the values of a JSON document: numbers are equal by value, whatever
  their type (\<open>1 == 1.0 == True\<close>), strings and lists by content, dictionaries when
  they have the same keys with equal values, \<open>None\<close> only to itself.
\<close>

fun num_of :: "json \<Rightarrow> rat option" where
  "num_of (JInt n) = Some (of_int n)"
| "num_of (JFloat q) = Some q"
| "num_of (JBool b) = Some (if b then 1 else 0)"
| "num_of _ = None"

fun py_eq :: "json \<Rightarrow> json \<Rightarrow> bool"
  and py_eq_list :: "json list \<Rightarrow> json list \<Rightarrow> bool"
  and py_eq_sub :: "(string \<times> json) list \<Rightarrow> (string \<times> json) list \<Rightarrow> bool" where
  "py_eq JNull b = (b = JNull)"
| "py_eq (JStr s) b = (b = JStr s)"
| "py_eq (JArr xs) b = (case b of JArr ys \<Rightarrow> py_eq_list xs ys | _ \<Rightarrow> False)"
| "py_eq (JObj kvs) b =
     (case b of
        JObj kws \<Rightarrow> py_eq_sub kvs kws \<and> set (map fst kws) \<subseteq> set (map fst kvs)
      | _ \<Rightarrow> False)"
| "py_eq (JBool x) b = (num_of b = Some (if x then 1 else 0))"
| "py_eq (JInt n) b = (num_of b = Some (of_int n))"
| "py_eq (JFloat q) b = (num_of b = Some q)"
| "py_eq_list [] ys = (ys = [])"
| "py_eq_list (x # xs) ys = (case ys of [] \<Rightarrow> False | y # ys' \<Rightarrow> py_eq x y \<and> py_eq_list xs ys')"
| "py_eq_sub [] kws = True"
| "py_eq_sub (kv # kvs) kws =
     ((case map_of kws (fst kv) of None \<Rightarrow> False | Some w \<Rightarrow> py_eq (snd kv) w) \<and> py_eq_sub kvs kws)"

text \<open>\<open>x in xs\<close> for a list \<open>xs\<close>: some element of the list equals \<open>x\<close>.\<close>

definition py_mem :: "json \<Rightarrow> json list \<Rightarrow> bool" where
  "py_mem x xs = list_ex (\<lambda>y. py_eq y x) xs"

text \<open>
  One row of \<open>metrics.models.PR\<close>, with every column of the model. Character columns
  store \<open>str\<close> of what they are given, datetime columns the instant; the table is a
  list of rows, the primary key of a row being its position.
\<close>

record PR =
  pr_pr_id :: string
  pr_source :: string
  pr_work_item :: "nat option"
  pr_title :: "string option"
  pr_branch :: "string option"
  pr_opened_at :: "int option"
  pr_first_reviewed_at :: "int option"
  pr_merged_at :: "int option"
  pr_author_id :: "string option"
  pr_reviewer_ids :: "string list"
  pr_meta :: json

text \<open>The row that \<open>create\<close> starts from: the lookup field and the defaults of the model.\<close>

definition PR_blank :: "string \<Rightarrow> PR" where
  "PR_blank pid =
     \<lparr>pr_pr_id = pid, pr_source = ''github'', pr_work_item = None, pr_title = None,
      pr_branch = None, pr_opened_at = None, pr_first_reviewed_at = None,
      pr_merged_at = None, pr_author_id = None, pr_reviewer_ids = [], pr_meta = JObj []\<rparr>"

text \<open>What a nullable character column stores for a value.\<close>

definition opt_str :: "pylib \<Rightarrow> json \<Rightarrow> string option" where
  "opt_str L j = (if j = JNull then None else Some (py_str L j))"

text \<open>\<open>PR.objects.filter(pr_id=pid)\<close>, as primary keys.\<close>

definition pr_matches :: "PR list \<Rightarrow> string \<Rightarrow> nat list" where
  "pr_matches prs pid = filter (\<lambda>i. pr_pr_id (prs ! i) = pid) [0..<length prs]"

text \<open>\<open>PR.objects.update_or_create(pr_id=pid, defaults=...)\<close>; \<open>defaults\<close> is the
  assignment of the default fields to a row. Returns the primary key of the row and the
  new table.\<close>

definition pr_update_or_create :: "PR list \<Rightarrow> string \<Rightarrow> (PR \<Rightarrow> PR) \<Rightarrow> exn + nat \<times> PR list" where
  "pr_update_or_create prs pid defaults =
     (case pr_matches prs pid of
        [] \<Rightarrow> Inr (length prs, prs @ [defaults (PR_blank pid)])
      | [i] \<Rightarrow> Inr (i, prs[i := defaults (prs ! i)])
      | _ \<Rightarrow> Inl MultipleObjectsReturned)"

text \<open>
  Lines 38 to 43 of \<open>GitHubPRNormalizer.normalize\<close>: one step of the loop over
  \<open>reviews\<close>, on the pair of \<open>reviewers\<close> and \<open>first_reviewed_at\<close>.
\<close>

definition review_step ::
  "pylib \<Rightarrow> json \<Rightarrow> json list \<times> datetime option \<Rightarrow> exn + json list \<times> datetime option" where
  "review_step L r acc =
     (case acc of (reviewers, first_reviewed_at) \<Rightarrow>
        ebind (dget r ''user'') (\<lambda>user.
        ebind (dget (por user (JObj [])) ''login'') (\<lambda>rid.
        let reviewers' = (if truthy rid \<and> \<not> py_mem rid reviewers then reviewers @ [rid]
                          else reviewers) in
        ebind (dget r ''submitted_at'') (\<lambda>submitted_at.
          if truthy submitted_at \<and> first_reviewed_at = None
          then ebind (to_dt L submitted_at) (\<lambda>d. Inr (reviewers', d))
          else Inr (reviewers', first_reviewed_at)))))"

text \<open>The \<open>defaults\<close> dictionary of line 48, as the assignment of its fields to a row.\<close>

definition github_defaults ::
  "pylib \<Rightarrow> json \<Rightarrow> json \<Rightarrow> json \<Rightarrow> json \<Rightarrow> json \<Rightarrow> datetime option \<Rightarrow> datetime option \<Rightarrow>
   datetime option \<Rightarrow> json list \<Rightarrow> PR \<Rightarrow> PR" where
  "github_defaults L owner name title branch author opened_at first_reviewed_at merged_at
     reviewers row =
     row\<lparr>pr_source := ''github'',
         pr_title := Some (py_str L (por title (JStr ''''))),
         pr_branch := opt_str L branch,
         pr_opened_at := map_option dt_instant opened_at,
         pr_first_reviewed_at := map_option dt_instant first_reviewed_at,
         pr_merged_at := map_option dt_instant merged_at,
         pr_author_id := opt_str L author,
         pr_reviewer_ids := map (py_str L) reviewers,
         pr_meta := JObj [(''repo'', JStr (py_str L owner @ ''/'' @ py_str L name))]\<rparr>"

text \<open>
  Lines 18 to 59 of the body of the loop of \<open>GitHubPRNormalizer.normalize\<close>, for one
  raw record \<open>rp\<close> on the table \<open>prs\<close>: \<open>None\<close> when the record is skipped by one of the
  two \<open>continue\<close>, else the primary key of the row that line 46 writes and the new
  table. The rest of the body, lines 61 to 91, links the row to work items: it writes
  the column \<open>work_item\<close> of the row (\<open>save(update_fields=["work_item"])\<close>) and the
  column \<open>linked_prs\<close> of work items, and no other column of the row.
\<close>

definition github_upsert :: "pylib \<Rightarrow> RawPayload \<Rightarrow> PR list \<Rightarrow> exn + (nat \<times> PR list) option" where
  "github_upsert L rp prs =
     (if rp_source rp \<noteq> ''github'' \<or> rp_object_type rp \<noteq> ''pr'' then Inr None
      else
        let payload = por (rp_payload rp) (JObj []) in
        ebind (dget payload ''repo'') (\<lambda>repo0.
        ebind (dget payload ''pr'') (\<lambda>pr0.
        ebind (dget payload ''reviews'') (\<lambda>reviews0.
        let repo = por repo0 (JObj []); pr = por pr0 (JObj []);
            reviews = por reviews0 (JArr []) in
        ebind (dget repo ''owner'') (\<lambda>owner.
        ebind (dget repo ''name'') (\<lambda>name.
        ebind (dget pr ''number'') (\<lambda>number.
          if \<not> (truthy owner \<and> truthy name \<and> truthy number) then Inr None
          else
            let pr_id = py_str L owner @ ''/'' @ py_str L name @ ''#'' @ py_str L number in
            ebind (dget pr ''created_at'') (\<lambda>created.
            ebind (to_dt L created) (\<lambda>opened_at.
            ebind (dget pr ''merged_at'') (\<lambda>merged.
            ebind (to_dt L merged) (\<lambda>merged_at.
            ebind (iter reviews) (\<lambda>rs.
            ebind (efold (review_step L) rs ([], None)) (\<lambda>(reviewers, first_reviewed_at).
            ebind (dget pr ''title'') (\<lambda>title.
            ebind (dget pr ''head'') (\<lambda>head.
            ebind (dget (por head (JObj [])) ''ref'') (\<lambda>branch.
            ebind (dget pr ''user'') (\<lambda>user.
            ebind (dget (por user (JObj [])) ''login'') (\<lambda>author.
            ebind (pr_update_or_create prs pr_id
                     (github_defaults L owner name title branch author opened_at
                        first_reviewed_at merged_at reviewers))
              (\<lambda>res. Inr (Some res))))))))))))))))))))"

section \<open>The SLA limit of a blocked item (etl/sla.py)\<close>

text \<open>\<open>_cfg()\<close>, on the configuration document of the active mapping.\<close>

definition sla_cfg :: "json \<Rightarrow> exn + json" where
  "sla_cfg config =
     (case config of
        JObj kvs \<Rightarrow> ebind (dget config ''sla'') (\<lambda>s. Inr (por s (JObj [])))
      | _ \<Rightarrow> Inr (JObj []))"

text \<open>\<open>m.items()\<close> and \<open>m.keys()\<close>: only a \<open>dict\<close> has them.\<close>

fun items :: "json \<Rightarrow> exn + (string \<times> json) list" where
  "items (JObj kvs) = Inr kvs"
| "items _ = Inl AttributeError"

text \<open>The loop over the labels, lines 31 to 34: the first label whose lower-cased
  \<open>str\<close> is a lower-cased key of \<open>pri_map\<close>.\<close>

fun label_priority :: "pylib \<Rightarrow> string list \<Rightarrow> json list \<Rightarrow> string option" where
  "label_priority L keys_lower [] = None"
| "label_priority L keys_lower (l # ls) =
     (if lower (py_str L l) \<in> set keys_lower then Some (py_str L l)
      else label_priority L keys_lower ls)"

text \<open>The loop of lines 36 to 39: the first key equal to the priority up to case whose
  value \<open>int\<close> accepts.\<close>

fun priority_hours :: "pylib \<Rightarrow> string \<Rightarrow> (string \<times> json) list \<Rightarrow> int option" where
  "priority_hours L priority [] = None"
| "priority_hours L priority ((k, v) # kvs) =
     (if lower priority = lower k then
        (case py_int L v of Inr n \<Rightarrow> Some n | Inl e \<Rightarrow> priority_hours L priority kvs)
      else priority_hours L priority kvs)"

text \<open>\<open>{k.lower(): v for k, v in type_map.items()}\<close>: a later key replaces an earlier
  one that has the same lower-cased form.\<close>

definition lower_keys :: "(string \<times> json) list \<Rightarrow> string \<Rightarrow> json option" where
  "lower_keys kvs = map_of (rev (map (\<lambda>kv. (lower (fst kv), snd kv)) kvs))"

text \<open>Lines 51 to 54, the global fallback, all of it inside \<open>try ... except: return 48\<close>.\<close>

definition global_hours :: "pylib \<Rightarrow> json \<Rightarrow> json \<Rightarrow> int" where
  "global_hours L sla defaults =
     (case ebind (dget_d defaults ''blocked_hours'' (JInt 48)) (\<lambda>d.
           ebind (dget_d sla ''blocked_hours'' d) (py_int L)) of
        Inr n \<Rightarrow> n
      | Inl e \<Rightarrow> 48)"

text \<open>
  Lines 24 to 34: the priority of the item, the empty string when there is none;
  \<open>pri_map\<close> is read only when a label is looked at.
\<close>

definition meta_priority :: "pylib \<Rightarrow> json \<Rightarrow> json \<Rightarrow> exn + string" where
  "meta_priority L pri_map meta =
     (case meta of
        JObj m \<Rightarrow>
          ebind (dget meta ''priority'') (\<lambda>p1.
          ebind (dget meta ''Priority'') (\<lambda>p2.
          ebind (jstrip (por (por p1 p2) (JStr ''''))) (\<lambda>priority.
            if priority = [] then
              ebind (dget meta ''labels'') (\<lambda>labels0.
                case por labels0 (JArr []) of
                  JArr labels \<Rightarrow>
                    (if labels = [] then Inr []
                     else ebind (items pri_map) (\<lambda>kvs.
                            Inr (case label_priority L (map (\<lambda>kv. lower (fst kv)) kvs) labels of
                                   Some p \<Rightarrow> p | None \<Rightarrow> [])))
                | _ \<Rightarrow> Inr [])
            else Inr priority)))
      | _ \<Rightarrow> Inr [])"

text \<open>\<open>(sla.get(name) or {}) or (defaults.get(name) or {})\<close>\<close>

definition sla_or_default :: "json \<Rightarrow> json \<Rightarrow> string \<Rightarrow> exn + json" where
  "sla_or_default sla defaults name =
     ebind (dget sla name) (\<lambda>m.
       if truthy m then Inr m
       else ebind (dget defaults name) (\<lambda>d. Inr (por d (JObj []))))"

text \<open>
  \<open>_hours_for_item(wi)\<close>; \<open>config\<close> is the configuration document of the active mapping
  and \<open>defaults\<close> is \<open>settings.SLA_DEFAULTS or {}\<close>, a setting of the deployment.
\<close>

definition hours_for_item :: "pylib \<Rightarrow> json \<Rightarrow> json \<Rightarrow> WorkItem \<Rightarrow> exn + int" where
  "hours_for_item L config defaults wi =
     ebind (sla_cfg config) (\<lambda>sla.
     ebind (sla_or_default sla defaults ''by_priority'') (\<lambda>pri_map.
     ebind (meta_priority L pri_map (wi_meta wi)) (\<lambda>priority.
     ebind (if priority \<noteq> [] then ebind (items pri_map) (\<lambda>kvs. Inr (priority_hours L priority kvs))
            else Inr None) (\<lambda>by_priority.
       case by_priority of
         Some n \<Rightarrow> Inr n
       | None \<Rightarrow>
           ebind (sla_or_default sla defaults ''by_type'') (\<lambda>type_map.
           ebind (items type_map) (\<lambda>tkvs.
             case (case lower_keys tkvs (lower (wi_item_type wi)) of
                     Some v \<Rightarrow> (case py_int L v of Inr n \<Rightarrow> Some n | Inl e \<Rightarrow> None)
                   | None \<Rightarrow> None) of
               Some n \<Rightarrow> Inr n
             | None \<Rightarrow> Inr (global_hours L sla defaults)))))))"

section \<open>The mapping configuration validator (etl/mapping_validator.py)\<close>

definition REQUIRED_KEYS :: "(string \<times> string list) list" where
  "REQUIRED_KEYS =
     [(''jira'', [''points_field'', ''status_map'']),
      (''clickup'', [''points_field_name'']),
      (''azure'', [''points_field'']),
      (''github'', [''link_patterns''])]"

definition CANONICAL_STEPS :: "string list" where
  "CANONICAL_STEPS =
     [''dev_started'', ''dev_done'', ''ready_for_qa'', ''qa_started'', ''qa_verified'',
      ''signed_off'', ''ready_for_uat'', ''deployed_uat'', ''done'']"

text \<open>An entry of \<open>errors\<close> or \<open>warnings\<close>: its \<open>path\<close> and its \<open>msg\<close>.\<close>

type_synonym finding = "string \<times> string"

record vresult =
  vr_ok :: bool
  vr_errors :: "finding list"
  vr_warnings :: "finding list"
  vr_normalized :: json

text \<open>\<open>k in x\<close> for a string \<open>k\<close>: a key of a \<open>dict\<close>, an element of a list, a substring
  of a string; \<open>TypeError\<close> for the objects that are no containers.\<close>

fun py_in :: "string \<Rightarrow> json \<Rightarrow> exn + bool" where
  "py_in k (JObj kvs) = Inr (map_of kvs k \<noteq> None)"
| "py_in k (JArr xs) = Inr (JStr k \<in> set xs)"
| "py_in k (JStr s) = Inr (str_in k s)"
| "py_in k _ = Inl TypeError"

fun is_str :: "json \<Rightarrow> bool" where
  "is_str (JStr s) = True"
| "is_str _ = False"

text \<open>\<open>_nonempty_list(val)\<close>: a list all of whose elements are strings that are not
  blank; the empty list passes.\<close>

definition nonempty_list :: "json \<Rightarrow> bool" where
  "nonempty_list val =
     (case val of
        JArr xs \<Rightarrow> list_all (\<lambda>x. case x of JStr s \<Rightarrow> py_strip s \<noteq> [] | _ \<Rightarrow> False) xs
      | _ \<Rightarrow> False)"

text \<open>The inner loop of lines 46 to 48, over the required keys of one section.\<close>

fun check_keys :: "string \<Rightarrow> json \<Rightarrow> string list \<Rightarrow> finding list \<Rightarrow> exn + finding list" where
  "check_keys section sec [] errors = Inr errors"
| "check_keys section sec (k # keys) errors =
     ebind (py_in k sec) (\<lambda>present.
       check_keys section sec keys
         (if present then errors
          else errors @ [(section @ ''.'' @ k, ''Missing '' @ [CHR 0x27] @ k @ [CHR 0x27])]))"

text \<open>The loop of lines 41 to 48, over the sections.\<close>

fun check_sections ::
  "json \<Rightarrow> (string \<times> string list) list \<Rightarrow> finding list \<Rightarrow> exn + finding list" where
  "check_sections conf [] errors = Inr errors"
| "check_sections conf ((section, keys) # rest) errors =
     ebind (py_in section conf) (\<lambda>present.
       if \<not> present then
         check_sections conf rest
           (errors @ [(section, ''Missing '' @ [CHR 0x27] @ section @ [CHR 0x27] @ '' section'')])
       else
         ebind (dget conf section) (\<lambda>sec0.
         ebind (check_keys section (por sec0 (JObj [])) keys errors) (\<lambda>errors'.
           check_sections conf rest errors')))"

text \<open>\<open>if key in sec and not isinstance(sec.get(key), str): errors.append(...)\<close>\<close>

definition check_str_field ::
  "json \<Rightarrow> string \<Rightarrow> finding \<Rightarrow> finding list \<Rightarrow> exn + finding list" where
  "check_str_field sec key finding errors =
     ebind (py_in key sec) (\<lambda>present.
       if present then
         ebind (dget sec key) (\<lambda>v. Inr (if is_str v then errors else errors @ [finding]))
       else Inr errors)"

text \<open>The loop of lines 58 to 64, over the canonical steps, on the pair of \<open>errors\<close> and
  \<open>warnings\<close>.\<close>

fun check_steps ::
  "json \<Rightarrow> string list \<Rightarrow> finding list \<times> finding list \<Rightarrow> exn + finding list \<times> finding list" where
  "check_steps status_map [] ew = Inr ew"
| "check_steps status_map (step # steps) (errors, warnings) =
     ebind (dget status_map step) (\<lambda>vals.
       if vals = JNull then
         check_steps status_map steps
           (errors,
            warnings @ [(''jira.status_map.'' @ step,
               ''Not mapped '' @ [CHR 0xE2, CHR 0x80, CHR 0x94]
                 @ '' timestamps for this step won'' @ [CHR 0x27] @ ''t be set'')])
       else if \<not> nonempty_list vals then
         check_steps status_map steps
           (errors @ [(''jira.status_map.'' @ step, ''Must be a non-empty list of status names'')],
            warnings)
       else check_steps status_map steps (errors, warnings))"

text \<open>The inner loop of lines 71 to 79, over the status names of one step, on
  \<open>errors\<close>, \<open>warnings\<close> and the dictionary \<open>seen\<close> (the newest entry first).\<close>

fun check_names ::
  "string \<Rightarrow> json list \<Rightarrow> finding list \<times> finding list \<times> (string \<times> string) list \<Rightarrow>
   exn + finding list \<times> finding list \<times> (string \<times> string) list" where
  "check_names step [] ews = Inr ews"
| "check_names step (s # arr) (errors, warnings, seen) =
     ebind (jlower s) (\<lambda>l.
       let key = py_strip l in
       if key = [] then
         check_names step arr
           (errors @ [(''jira.status_map.'' @ step, ''Empty status string'')], warnings, seen)
       else
         (case map_of seen key of
            Some other \<Rightarrow>
              (if other \<noteq> step then
                 check_names step arr
                   (errors,
                    warnings @ [(''jira.status_map'',
                       ''Status '' @ [CHR 0x27] @ (case s of JStr n \<Rightarrow> n | _ \<Rightarrow> []) @ [CHR 0x27]
                         @ '' appears in multiple steps: '' @ other @ '' and '' @ step)],
                    seen)
               else check_names step arr (errors, warnings, (key, step) # seen))
          | None \<Rightarrow> check_names step arr (errors, warnings, (key, step) # seen)))"

text \<open>The loop of lines 67 to 79, over \<open>status_map.items()\<close>.\<close>

fun check_duplicates ::
  "(string \<times> json) list \<Rightarrow> finding list \<times> finding list \<times> (string \<times> string) list \<Rightarrow>
   exn + finding list \<times> finding list \<times> (string \<times> string) list" where
  "check_duplicates [] ews = Inr ews"
| "check_duplicates ((step, arr) # rest) (errors, warnings, seen) =
     (case arr of
        JArr xs \<Rightarrow> ebind (check_names step xs (errors, warnings, seen)) (check_duplicates rest)
      | _ \<Rightarrow>
          check_duplicates rest
            (errors @ [(''jira.status_map.'' @ step, ''Must be a list'')], warnings, seen))"

text \<open>The loop of lines 97 to 103, over \<open>link_patterns.items()\<close>.\<close>

fun check_patterns :: "pylib \<Rightarrow> (string \<times> json) list \<Rightarrow> finding list \<Rightarrow> finding list" where
  "check_patterns L [] errors = errors"
| "check_patterns L ((name, pat) # rest) errors =
     (case pat of
        JStr p \<Rightarrow>
          (case re_compile L p of
             None \<Rightarrow> check_patterns L rest errors
           | Some err \<Rightarrow>
               check_patterns L rest
                 (errors @ [(''github.link_patterns.'' @ name, ''Invalid regex: '' @ err)]))
      | _ \<Rightarrow>
          check_patterns L rest
            (errors @ [(''github.link_patterns.'' @ name, ''Must be a regex string'')]))"

text \<open>\<open>not isinstance(v, (int, float)) or v < 0\<close>\<close>

fun bad_threshold :: "json \<Rightarrow> bool" where
  "bad_threshold (JInt n) = (n < 0)"
| "bad_threshold (JFloat q) = (q < 0)"
| "bad_threshold (JBool b) = False"
| "bad_threshold _ = True"

text \<open>The loop of lines 111 to 115, over the three thresholds; \<open>validator\<close> is \<open>None\<close> or
  a \<open>dict\<close> here.\<close>

fun check_thresholds :: "json \<Rightarrow> string list \<Rightarrow> finding list \<Rightarrow> exn + finding list" where
  "check_thresholds validator [] errors = Inr errors"
| "check_thresholds validator (k # ks) errors =
     ebind (py_in k (por validator (JObj []))) (\<lambda>present.
       if present then
         ebind (dget validator k) (\<lambda>v.
           check_thresholds validator ks
             (if bad_threshold v
              then errors @ [(''validator.'' @ k, ''Must be a non-negative number'')]
              else errors))
       else check_thresholds validator ks errors)"

text \<open>\<open>validate_mapping_config(cfg)\<close>\<close>

definition validate_mapping_config :: "pylib \<Rightarrow> json \<Rightarrow> exn + vresult" where
  "validate_mapping_config L cfg0 =
     (let conf = por cfg0 (JObj []) in
      ebind (check_sections conf REQUIRED_KEYS []) (\<lambda>e1.
      ebind (dget_d conf ''jira'' (JObj [])) (\<lambda>jira0.
      let jira = por jira0 (JObj []) in
      ebind (check_str_field jira ''points_field''
               (''jira.points_field'', ''Must be a string (e.g., customfield_10016)'') e1) (\<lambda>e2.
      ebind (dget_d jira ''status_map'' (JObj [])) (\<lambda>sm0.
      let status_map = por sm0 (JObj []) in
      ebind (case status_map of
               JObj sm \<Rightarrow>
                 ebind (check_steps status_map CANONICAL_STEPS (e2, [])) (\<lambda>(e, w).
                 ebind (check_duplicates sm (e, w, [])) (\<lambda>(e', w', seen). Inr (e', w')))
             | _ \<Rightarrow> Inr (e2 @ [(''jira.status_map'', ''Must be an object of arrays'')], []))
        (\<lambda>(e3, warnings).
      ebind (dget_d conf ''clickup'' (JObj [])) (\<lambda>clickup0.
      ebind (check_str_field (por clickup0 (JObj [])) ''points_field_name''
               (''clickup.points_field_name'', ''Must be a string (custom field display name)'') e3)
        (\<lambda>e4.
      ebind (dget_d conf ''azure'' (JObj [])) (\<lambda>azure0.
      ebind (check_str_field (por azure0 (JObj [])) ''points_field''
               (''azure.points_field'',
                ''Must be a string (e.g., Microsoft.VSTS.Scheduling.StoryPoints)'') e4)
        (\<lambda>e5.
      ebind (dget_d conf ''github'' (JObj [])) (\<lambda>github0.
      ebind (dget_d (por github0 (JObj [])) ''link_patterns'' (JObj [])) (\<lambda>lp0.
      let e6 = (case por lp0 (JObj []) of
                  JObj lp \<Rightarrow> check_patterns L lp e5
                | _ \<Rightarrow> e5 @ [(''github.link_patterns'',
                              ''Must be an object (name -> regex string)'')]) in
      ebind (dget conf ''validator'') (\<lambda>validator.
      ebind (case validator of
               JNull \<Rightarrow> check_thresholds validator
                 [''max_dev_days_without_progress'', ''max_ready_for_qa_days'', ''max_qa_days''] e6
             | JObj v \<Rightarrow> check_thresholds validator
                 [''max_dev_days_without_progress'', ''max_ready_for_qa_days'', ''max_qa_days''] e6
             | _ \<Rightarrow> Inr (e6 @ [(''validator'', ''Must be an object with numeric thresholds'')]))
        (\<lambda>errors.
        Inr \<lparr>vr_ok = (length errors = 0), vr_errors = errors, vr_warnings = warnings,
             vr_normalized = conf\<rparr>))))))))))))))"

section \<open>Notification grouping (etl/notifier.py)\<close>

text \<open>A notification channel; only its \<open>rules\<close> column is read here.\<close>

record NotificationChannel =
  nc_rules :: json

text \<open>\<open>_should_include(rule, channel)\<close>\<close>

definition should_include :: "string \<Rightarrow> NotificationChannel \<Rightarrow> exn + bool" where
  "should_include rule channel =
     (let rules = por (nc_rules channel) (JArr [])
      in if truthy rules then py_in rule rules else Inr True)"

text \<open>An entry of \<open>grouped\<close>: \<open>{"rule": ..., "count": ..., "samples": [...]}\<close>.\<close>

record group =
  g_rule :: string
  g_count :: nat
  g_samples :: "string list"

text \<open>
  What \<open>_collect_for_board\<close> reads besides the ticket table: \<open>source_id\<close> of the work
  item that a ticket points to, as a function of the primary key of the work item.
\<close>

record ticket_env =
  te_source_id :: "nat \<Rightarrow> string"

text \<open>\<open>RemediationTicket.objects.filter(board=board).exclude(status=DONE)\<close>\<close>

definition open_qs :: "RemediationTicket list \<Rightarrow> nat \<Rightarrow> RemediationTicket list" where
  "open_qs ts board = filter (\<lambda>rt. rt_board rt = board \<and> rt_status rt \<noteq> DONE) ts"

text \<open>
  The names that a lookup on \<open>RemediationTicket\<close> resolves: the fields that the model
  class declares in metrics/models.py (\<open>board\<close>, \<open>work_item\<close>, \<open>rule_code\<close>, \<open>message\<close>,
  \<open>status\<close>, \<open>created_at\<close>, \<open>resolved_at\<close>, \<open>meta\<close>), the primary key that Django adds
  and the two foreign key columns. The class declares no \<open>updated_at\<close>.
\<close>

definition RemediationTicket_fields :: "string list" where
  "RemediationTicket_fields =
     [''id'', ''pk'', ''board'', ''board_id'', ''work_item'', ''work_item_id'', ''rule_code'',
      ''message'', ''status'', ''created_at'', ''resolved_at'', ''meta'']"

text \<open>The instant that a field of a ticket holds; the fields other than \<open>created_at\<close> and
  \<open>resolved_at\<close> hold no instant.\<close>

definition instant_of :: "string \<Rightarrow> RemediationTicket \<Rightarrow> int option" where
  "instant_of name rt =
     (if name = ''created_at'' then Some (rt_created_at rt)
      else if name = ''resolved_at'' then rt_resolved_at rt
      else None)"

text \<open>
  \<open>qs.filter(<name>__gte=since)\<close> for an instant \<open>since\<close>. \<open>QuerySet.filter\<close> resolves the
  name against the fields of the model when it is called, and raises \<open>FieldError\<close> for a
  name that is no field of the model.
\<close>

definition filter_gte ::
  "string \<Rightarrow> int \<Rightarrow> RemediationTicket list \<Rightarrow> exn + RemediationTicket list" where
  "filter_gte name since qs =
     (if name \<notin> set RemediationTicket_fields then Inl FieldError
      else Inr (filter (\<lambda>rt. case instant_of name rt of Some t \<Rightarrow> since \<le> t | None \<Rightarrow> False) qs))"

text \<open>Line 29 and line 30: the union of the two filtered querysets, by descending
  \<open>created_at\<close>.\<close>

definition recent_qs :: "RemediationTicket list \<Rightarrow> nat \<Rightarrow> int \<Rightarrow> exn + RemediationTicket list" where
  "recent_qs ts board since =
     ebind (filter_gte ''created_at'' since (open_qs ts board)) (\<lambda>created.
     ebind (filter_gte ''updated_at'' since (open_qs ts board)) (\<lambda>updated.
       Inr (sort_key (\<lambda>rt. - rt_created_at rt)
              (filter (\<lambda>rt. rt \<in> set created \<or> rt \<in> set updated) (open_qs ts board)))))"

text \<open>The sample string of a ticket, line 38.\<close>

definition sample_tag :: "ticket_env \<Rightarrow> RemediationTicket \<Rightarrow> string" where
  "sample_tag env rt = (case rt_work_item rt of None \<Rightarrow> ''n/a'' | Some w \<Rightarrow> te_source_id env w)"

text \<open>Lines 35 to 40 for a ticket that is included: \<open>setdefault\<close>, the count, the
  sample. \<open>grouped\<close> is a dictionary in insertion order.\<close>

fun add_ticket :: "string \<Rightarrow> string \<Rightarrow> (string \<times> group) list \<Rightarrow> (string \<times> group) list" where
  "add_ticket rule tag [] = [(rule, \<lparr>g_rule = rule, g_count = 1, g_samples = [tag]\<rparr>)]"
| "add_ticket rule tag ((k, g) # rest) =
     (if k = rule
      then (k, g\<lparr>g_count := g_count g + 1,
                 g_samples := (if tag \<in> set (g_samples g) then g_samples g
                               else g_samples g @ [tag])\<rparr>) # rest
      else (k, g) # add_ticket rule tag rest)"

text \<open>The loop of lines 33 to 40.\<close>

fun group_recent ::
  "ticket_env \<Rightarrow> NotificationChannel \<Rightarrow> RemediationTicket list \<Rightarrow> (string \<times> group) list \<Rightarrow>
   exn + (string \<times> group) list" where
  "group_recent env channel [] grouped = Inr grouped"
| "group_recent env channel (rt # rest) grouped =
     ebind (should_include (rt_rule_code rt) channel) (\<lambda>inc.
       group_recent env channel rest
         (if inc then add_ticket (rt_rule_code rt) (sample_tag env rt) grouped else grouped))"

text \<open>The loop of lines 45 to 47: \<open>counts\<close>, a dictionary in insertion order.\<close>

fun bump :: "string \<Rightarrow> (string \<times> nat) list \<Rightarrow> (string \<times> nat) list" where
  "bump rule [] = [(rule, 1)]"
| "bump rule ((k, n) # rest) = (if k = rule then (k, n + 1) # rest else (k, n) # bump rule rest)"

fun count_open ::
  "NotificationChannel \<Rightarrow> RemediationTicket list \<Rightarrow> (string \<times> nat) list \<Rightarrow>
   exn + (string \<times> nat) list" where
  "count_open channel [] counts = Inr counts"
| "count_open channel (rt # rest) counts =
     ebind (should_include (rt_rule_code rt) channel) (\<lambda>inc.
       count_open channel rest (if inc then bump (rt_rule_code rt) counts else counts))"

text \<open>
  \<open>_collect_for_board(board, channel, window_minutes)\<close> at the instant \<open>now\<close>. Line 48
  sorts \<open>counts\<close> by descending count, equal counts in their order of insertion, and
  keeps the first five.
\<close>

definition collect_for_board ::
  "ticket_env \<Rightarrow> RemediationTicket list \<Rightarrow> int \<Rightarrow> nat \<Rightarrow> NotificationChannel \<Rightarrow> int \<Rightarrow>
   exn + (string \<times> group) list" where
  "collect_for_board env ts now board channel window_minutes =
     (let since = now - window_minutes * 60000000 in
      ebind (recent_qs ts board since) (\<lambda>recent.
      ebind (group_recent env channel recent []) (\<lambda>grouped.
        if grouped = [] then
          ebind (count_open channel (open_qs ts board) []) (\<lambda>counts.
            Inr (map (\<lambda>(rule, cnt). (rule, \<lparr>g_rule = rule, g_count = cnt, g_samples = []\<rparr>))
                   (take 5 (sort_key (\<lambda>kv. - int (snd kv)) counts))))
        else Inr grouped)))"

section \<open>The specification's notions\<close>

text \<open>
  The properties below speak of the fields of a document without asking how the code
  reads them. These readers are total: a missing key or a value of another type reads
  as \<open>None\<close>, the empty string or the empty list.
\<close>

definition jget :: "json \<Rightarrow> string \<Rightarrow> json" where
  "jget j k = (case j of JObj kvs \<Rightarrow> (case map_of kvs k of None \<Rightarrow> JNull | Some v \<Rightarrow> v) | _ \<Rightarrow> JNull)"

definition jstr :: "json \<Rightarrow> string" where
  "jstr j = (case j of JStr s \<Rightarrow> s | _ \<Rightarrow> [])"

definition jlist :: "json \<Rightarrow> json list" where
  "jlist j = (case j of JArr xs \<Rightarrow> xs | _ \<Rightarrow> [])"

text \<open>The instant that a timestamp of a document parses to, if it parses to one.\<close>

definition parsed :: "pylib \<Rightarrow> json \<Rightarrow> int list" where
  "parsed L v = (case to_dt L v of Inr (Some d) \<Rightarrow> [dt_instant d] | _ \<Rightarrow> [])"

text \<open>The least element of a list of instants, \<open>None\<close> for the empty list.\<close>

definition least :: "int list \<Rightarrow> int option" where
  "least ts = (if ts = [] then None else Some (Min (set ts)))"

subsection \<open>Reviews\<close>

text \<open>The \<open>submitted_at\<close> instants of the review records, in the order of the records.\<close>

definition submitted_times :: "pylib \<Rightarrow> json \<Rightarrow> int list" where
  "submitted_times L payload =
     concat (map (\<lambda>r. parsed L (jget r ''submitted_at'')) (jlist (jget payload ''reviews'')))"

text \<open>The reviewer identifiers of the review records, in the order of the records.\<close>

definition reviewer_logins :: "json \<Rightarrow> json list" where
  "reviewer_logins payload =
     filter truthy (map (\<lambda>r. jget (jget r ''user'') ''login'') (jlist (jget payload ''reviews'')))"

text \<open>The ordered-unique list, for a notion \<open>eq\<close> of equal elements: every element once,
  at its first place.\<close>

fun ordered_unique_by :: "('a \<Rightarrow> 'a \<Rightarrow> bool) \<Rightarrow> 'a list \<Rightarrow> 'a list" where
  "ordered_unique_by eq [] = []"
| "ordered_unique_by eq (x # xs) = x # ordered_unique_by eq (filter (\<lambda>y. \<not> eq x y) xs)"

text \<open>Appending to a list the elements of another that it does not hold yet, one after
  the other.\<close>

fun add_unique_by :: "('a \<Rightarrow> 'a \<Rightarrow> bool) \<Rightarrow> 'a list \<Rightarrow> 'a list \<Rightarrow> 'a list" where
  "add_unique_by eq acc [] = acc"
| "add_unique_by eq acc (x # xs) =
     add_unique_by eq (if list_ex (\<lambda>a. eq a x) acc then acc else acc @ [x]) xs"

text \<open>The identifier of the pull request of a payload: owner, repository and number.\<close>

definition pr_key :: "pylib \<Rightarrow> json \<Rightarrow> string" where
  "pr_key L payload =
     py_str L (jget (jget payload ''repo'') ''owner'') @ ''/''
       @ py_str L (jget (jget payload ''repo'') ''name'') @ ''#''
       @ py_str L (jget (jget payload ''pr'') ''number'')"

subsection \<open>Changelog\<close>

text \<open>A changelog entry moves the status into one of the target names, up to case.\<close>

definition moves_to :: "string list \<Rightarrow> json \<Rightarrow> bool" where
  "moves_to targets h \<longleftrightarrow>
     list_ex (\<lambda>item. jget item ''field'' = JStr ''status''
                \<and> lower (jstr (jget item ''toString'')) \<in> set (map lower targets))
       (jlist (jget h ''items''))"

text \<open>The times of the changelog entries of an issue that move the status into one of
  the target names.\<close>

definition transition_times :: "pylib \<Rightarrow> json \<Rightarrow> string list \<Rightarrow> int list" where
  "transition_times L issue targets =
     concat (map (\<lambda>h. if moves_to targets h then parsed L (jget h ''created'') else [])
       (jlist (jget (jget issue ''changelog'') ''histories'')))"

section \<open>An environment for the examples\<close>

text \<open>
  An instance of the library functions for the examples below. On the timestamps that
  the examples use, \<open>parse_datetime\<close> returns what Django returns; every other string is
  for this instance no datetime and no number, and every pattern compiles.
\<close>

definition sample_parse_datetime :: "string \<Rightarrow> exn + datetime option" where
  "sample_parse_datetime s =
     (if s = ''2024-01-01T00:00:00Z'' \<or> s = ''2024-01-01T00:00:00+00:00''
      then Inr (Some \<lparr>dt_instant = 1704067200000000, dt_tzinfo = Some 0\<rparr>)
      else if s = ''2024-01-02T00:00:00Z'' \<or> s = ''2024-01-02T00:00:00+00:00''
      then Inr (Some \<lparr>dt_instant = 1704153600000000, dt_tzinfo = Some 0\<rparr>)
      else Inr None)"

definition sample_lib :: pylib where
  "sample_lib =
     \<lparr>parse_datetime = sample_parse_datetime,
      fromisoformat = (\<lambda>s. Inl ValueError),
      current_timezone = 0,
      float_of_str = (\<lambda>s. None),
      int_of_str = (\<lambda>s. None),
      repr = (\<lambda>j. []),
      re_compile = (\<lambda>p. None)\<rparr>"

text \<open>A raw record of a pull request whose reviews are not listed by time: the review
  of the second of January comes first. The library instance prints the number 7.\<close>

definition sample_pr_payload :: json where
  "sample_pr_payload =
     JObj [(''repo'', JObj [(''owner'', JStr ''acme''), (''name'', JStr ''cbm'')]),
           (''pr'', JObj [(''number'', JInt 7), (''title'', JStr ''Fix'')]),
           (''reviews'', JArr
       [JObj [(''user'', JObj [(''login'', JStr ''bob'')]),
              (''submitted_at'', JStr ''2024-01-02T00:00:00Z'')],
        JObj [(''user'', JObj [(''login'', JStr ''amy'')]),
              (''submitted_at'', JStr ''2024-01-01T00:00:00Z'')],
        JObj [(''user'', JObj [(''login'', JStr ''bob'')]), (''submitted_at'', JNull)]])]"

definition sample_pr_record :: RawPayload where
  "sample_pr_record =
     \<lparr>rp_source = ''github'', rp_object_type = ''pr'', rp_payload = sample_pr_payload\<rparr>"

definition github_lib :: pylib where
  "github_lib = sample_lib\<lparr>repr := (\<lambda>j. if j = JInt 7 then ''7'' else [])\<rparr>"

text \<open>The status names that a status map configures for a step.\<close>

definition configured :: "json \<Rightarrow> string \<Rightarrow> string list" where
  "configured status_map step = map jstr (jlist (jget status_map step))"

text \<open>A status map gives the step a list of names, or nothing.\<close>

definition names_or_none :: "json \<Rightarrow> string \<Rightarrow> bool" where
  "names_or_none status_map step \<longleftrightarrow>
     (case jget status_map step of
        JArr xs \<Rightarrow> list_all is_str xs
      | JNull \<Rightarrow> True
      | _ \<Rightarrow> False)"

text \<open>What an optional time adds to a list of times.\<close>

fun opt_hits :: "'a option \<Rightarrow> 'a list" where
  "opt_hits None = []"
| "opt_hits (Some w) = [w]"

text \<open>A changelog item is a move of the status into one of the lower-cased names.\<close>

definition item_hit :: "string list \<Rightarrow> json \<Rightarrow> bool" where
  "item_hit names item \<longleftrightarrow>
     jget item ''field'' = JStr ''status'' \<and> lower (jstr (jget item ''toString'')) \<in> set names"

subsection \<open>Work item rows\<close>

text \<open>The row of the table for a source and source id, if there is one.\<close>

definition row_of :: "WorkItem list \<Rightarrow> string \<Rightarrow> string \<Rightarrow> WorkItem option" where
  "row_of rows source source_id =
     (case wi_matches rows source source_id of [] \<Rightarrow> None | i # rest \<Rightarrow> Some (rows ! i))"

text \<open>The issue that a raw payload carries, and the source id of its work item.\<close>

definition jira_issue :: "RawPayload \<Rightarrow> json" where
  "jira_issue rp = por (rp_payload rp) (JObj [])"

definition jira_source_id :: "pylib \<Rightarrow> RawPayload \<Rightarrow> string" where
  "jira_source_id L rp =
     py_str L (por (jget (jira_issue rp) ''key'') (jget (jira_issue rp) ''id''))"

text \<open>The eight step timestamps of a row, in the order of the canonical steps, and the
  names of those steps.\<close>

definition step_fields :: "WorkItem \<Rightarrow> int option list" where
  "step_fields row =
     [wi_dev_started_at row, wi_dev_done_at row, wi_ready_for_qa_at row, wi_qa_started_at row,
      wi_qa_verified_at row, wi_signed_off_at row, wi_ready_for_uat_at row,
      wi_deployed_uat_at row]"

definition STEP_NAMES :: "string list" where
  "STEP_NAMES =
     [''dev_started'', ''dev_done'', ''ready_for_qa'', ''qa_started'', ''qa_verified'',
      ''signed_off'', ''ready_for_uat'', ''deployed_uat'']"

text \<open>The default fields of a row assignment keep the key of the row.\<close>

definition keeps_key :: "(WorkItem \<Rightarrow> WorkItem) \<Rightarrow> bool" where
  "keeps_key D \<longleftrightarrow>
     (\<forall>row. wi_source (D row) = wi_source row \<and> wi_source_id (D row) = wi_source_id row)"

text \<open>
  For the examples: a configuration that maps two steps, a board, a clock that advances
  by one microsecond at each reading, and a Jira issue whose changelog moves the status
  to "In Progress" on the first of January 2024 and to "In Review" on the second.
\<close>

definition sample_config :: json where
  "sample_config =
     JObj [(''jira'',
       JObj [(''points_field'', JStr ''customfield_10016''),
             (''status_map'',
              JObj [(''dev_started'', JArr [JStr ''In Progress'']),
                    (''ready_for_qa'', JArr [JStr ''In Review''])])])]"

definition sample_board :: Board where
  "sample_board = \<lparr>b_id = 1, b_client_id = None\<rparr>"

definition sample_clock :: "nat \<Rightarrow> int" where
  "sample_clock n = 1704240000000000 + int n"

definition sample_history :: "string \<Rightarrow> string \<Rightarrow> json" where
  "sample_history created to_name =
     JObj [(''created'', JStr created),
           (''items'', JArr [JObj [(''field'', JStr ''status''), (''toString'', JStr to_name)]])]"

definition sample_issue :: "string \<Rightarrow> json" where
  "sample_issue status_name =
     JObj [(''key'', JStr ''PROJ-1''),
           (''fields'', JObj [(''summary'', JStr ''Login page''),
                              (''status'', JObj [(''name'', JStr status_name)])]),
           (''changelog'', JObj [(''histories'',
              JArr [sample_history ''2024-01-01T00:00:00+0000'' ''In Progress'',
                    sample_history ''2024-01-02T00:00:00+0000'' ''In Review''])])]"

definition sample_rp :: "string \<Rightarrow> RawPayload" where
  "sample_rp status_name =
     \<lparr>rp_source = ''jira'', rp_object_type = ''issue'', rp_payload = sample_issue status_name\<rparr>"

subsection \<open>Blocked since\<close>

text \<open>Whether the Jira item with a source id is blocked in a state, and since when.\<close>

definition is_blocked :: "wstate \<Rightarrow> string \<Rightarrow> bool" where
  "is_blocked s sid =
     (case row_of (fst s) ''jira'' sid of None \<Rightarrow> False | Some r \<Rightarrow> wi_blocked_flag r)"

definition since_of :: "wstate \<Rightarrow> string \<Rightarrow> int option" where
  "since_of s sid =
     (case row_of (fst s) ''jira'' sid of None \<Rightarrow> None | Some r \<Rightarrow> wi_blocked_since r)"

text \<open>The clock was read between two states, and \<open>blocked_since\<close> is that reading.\<close>

definition fresh :: "(nat \<Rightarrow> int) \<Rightarrow> wstate \<Rightarrow> wstate \<Rightarrow> string \<Rightarrow> bool" where
  "fresh clock s s' sid \<longleftrightarrow>
     (\<exists>n. snd s \<le> n \<and> n < snd s' \<and> since_of s' sid = Some (clock n))"

text \<open>
  The invariant of \<open>blocked_since\<close> for one run that takes the state \<open>s\<close> to \<open>s'\<close>: null
  when the item is not blocked after the run, a fresh timestamp when it became blocked
  in the run (or was blocked without a timestamp), and the value before the run when it
  was blocked before and still is.
\<close>

definition blocked_since_rule :: "(nat \<Rightarrow> int) \<Rightarrow> wstate \<Rightarrow> wstate \<Rightarrow> string \<Rightarrow> bool" where
  "blocked_since_rule clock s s' sid \<longleftrightarrow>
     (\<not> is_blocked s' sid \<longrightarrow> since_of s' sid = None) \<and>
     (is_blocked s' sid \<and> is_blocked s sid \<and> since_of s sid \<noteq> None \<longrightarrow> since_of s' sid = since_of s sid) \<and>
     (is_blocked s' sid \<and> (\<not> is_blocked s sid \<or> since_of s sid = None) \<longrightarrow> fresh clock s s' sid)"

subsection \<open>SLA maps\<close>

text \<open>The \<open>sla\<close> section of the active configuration.\<close>

definition sla_section :: "json \<Rightarrow> json" where
  "sla_section config = (case config of JObj kvs \<Rightarrow> por (jget config ''sla'') (JObj []) | _ \<Rightarrow> JObj [])"

text \<open>The \<open>by_priority\<close> or \<open>by_type\<close> map in force: the one of the configuration, or when
  that is missing or empty the one of the deployment defaults.\<close>

definition sla_map :: "json \<Rightarrow> json \<Rightarrow> string \<Rightarrow> json" where
  "sla_map config defaults name =
     (let m = jget (sla_section config) name
      in if truthy m then m else por (jget defaults name) (JObj []))"

text \<open>The entries of a map, none for a value that is no map.\<close>

definition entries :: "json \<Rightarrow> (string \<times> json) list" where
  "entries m = (case m of JObj kvs \<Rightarrow> kvs | _ \<Rightarrow> [])"

text \<open>The entries of a map whose key equals a name up to case, in the order of the map.\<close>

definition matching :: "string \<Rightarrow> (string \<times> json) list \<Rightarrow> (string \<times> json) list" where
  "matching name kvs = filter (\<lambda>kv. lower (fst kv) = lower name) kvs"

text \<open>The hours that a value stands for: the integer that \<open>int\<close> converts it to, if it
  converts it.\<close>

definition hours_of :: "pylib \<Rightarrow> json \<Rightarrow> int option" where
  "hours_of L v = (case py_int L v of Inr n \<Rightarrow> Some n | Inl e \<Rightarrow> None)"

text \<open>
  The priority of an item: \<open>meta.priority\<close>, else \<open>meta.Priority\<close>, stripped; when that is
  blank, the first label of \<open>meta.labels\<close> that equals a key of the \<open>by_priority\<close> map up
  to case; blank when there is none.
\<close>

definition item_priority :: "pylib \<Rightarrow> (string \<times> json) list \<Rightarrow> json \<Rightarrow> string" where
  "item_priority L pm meta =
     (let p = py_strip (jstr (por (por (jget meta ''priority'') (jget meta ''Priority'')) (JStr [])))
      in if p \<noteq> [] then p
         else case find (\<lambda>l. matching l pm \<noteq> []) (map (py_str L) (jlist (jget meta ''labels''))) of
                Some l \<Rightarrow> l
              | None \<Rightarrow> [])"

text \<open>The priority override of an item: the hours of the first entry of the
  \<open>by_priority\<close> map that matches the priority of the item and stands for hours; none for
  an item without a priority.\<close>

definition priority_override :: "pylib \<Rightarrow> (string \<times> json) list \<Rightarrow> json \<Rightarrow> int option" where
  "priority_override L pm meta =
     (if item_priority L pm meta = [] then None
      else case concat (map (\<lambda>kv. opt_hits (hours_of L (snd kv)))
                          (matching (item_priority L pm meta) pm)) of
             [] \<Rightarrow> None
           | n # ns \<Rightarrow> Some n)"

text \<open>The type override of an item: the hours of the last entry of the \<open>by_type\<close> map
  that matches the type of the item, if it stands for hours.\<close>

definition type_override :: "pylib \<Rightarrow> (string \<times> json) list \<Rightarrow> string \<Rightarrow> int option" where
  "type_override L tm item_type =
     (case rev (matching item_type tm) of
        [] \<Rightarrow> None
      | kv # kvs \<Rightarrow> hours_of L (snd kv))"

text \<open>
  The global default: the hours of \<open>blocked_hours\<close> of the \<open>sla\<close> section when the section
  has that key, else of \<open>blocked_hours\<close> of the deployment defaults when they have that
  key, else 48; and 48 when the value in force stands for no hours, or when the
  deployment defaults are no map.
\<close>

definition global_default :: "pylib \<Rightarrow> json \<Rightarrow> json \<Rightarrow> int" where
  "global_default L config defaults =
     (case defaults of
        JObj dm \<Rightarrow>
          (case map_of (entries (sla_section config)) ''blocked_hours'' of
             Some v \<Rightarrow> (case hours_of L v of Some n \<Rightarrow> n | None \<Rightarrow> 48)
           | None \<Rightarrow>
              (case map_of dm ''blocked_hours'' of
                 Some v \<Rightarrow> (case hours_of L v of Some n \<Rightarrow> n | None \<Rightarrow> 48)
               | None \<Rightarrow> 48))
      | _ \<Rightarrow> 48)"

text \<open>For the examples: SLA configurations with a priority map, a type map and a
  global limit, and a blank work item of the Jira source.\<close>

definition sla_config :: "json \<Rightarrow> json \<Rightarrow> json \<Rightarrow> json" where
  "sla_config blocked_hours by_priority by_type =
     JObj [(''sla'', JObj [(''blocked_hours'', blocked_hours),
                           (''by_priority'', by_priority),
                           (''by_type'', by_type)])]"

definition sample_sla_config :: json where
  "sample_sla_config =
     sla_config (JInt 48) (JObj [(''P1'', JInt 4)]) (JObj [(''bug'', JInt 24)])"

definition sample_item :: "string \<Rightarrow> json \<Rightarrow> WorkItem" where
  "sample_item item_type meta =
     (WorkItem_blank ''jira'' ''PROJ-1'')\<lparr>wi_item_type := item_type, wi_meta := meta\<rparr>"
section \<open>Reading documents\<close>

lemma dget_jget: "dget j k = Inr v \<Longrightarrow> v = jget j k"
  by (cases j) (auto simp: dget_def jget_def)

lemma dget_por_jget: "dget (por u (JObj [])) k = Inr v \<Longrightarrow> v = jget u k"
  by (cases u) (auto simp: dget_def jget_def por_def split: if_splits)

lemma iter_jlist:
  assumes "iter (por x (JArr [])) = Inr ys" and "efold f ys s = Inr s'"
    and "\<And>k t. \<exists>e. f (JStr k) t = Inl e"
  shows "ys = jlist x"
proof (cases x)
  case (JObj kvs)
  show ?thesis
  proof (cases kvs)
    case Nil with JObj assms(1) show ?thesis by (simp add: por_def jlist_def)
  next
    case (Cons kv rest)
    with JObj assms(1) have "ys = JStr (fst kv) # map (\<lambda>kv. JStr (fst kv)) rest"
      by (auto simp: por_def)
    with assms(2) assms(3)[of "fst kv" s] show ?thesis by (auto simp: ebind_def)
  qed
next
  case (JStr str)
  show ?thesis
  proof (cases str)
    case Nil with JStr assms(1) show ?thesis by (simp add: por_def jlist_def)
  next
    case (Cons c rest)
    with JStr assms(1) have "ys = JStr [c] # map (\<lambda>c. JStr [c]) rest"
      by (auto simp: por_def)
    with assms(2) assms(3)[of "[c]" s] show ?thesis by (auto simp: ebind_def)
  qed
qed (use assms(1) in \<open>auto simp: por_def jlist_def split: if_splits\<close>)

section \<open>Properties of the time parser\<close>

lemma to_dt_falsy: "\<not> truthy v \<Longrightarrow> to_dt L v = Inr None"
  by (simp add: to_dt_def)

lemma parsed_falsy: "\<not> truthy v \<Longrightarrow> parsed L v = []"
  by (simp add: parsed_def to_dt_falsy)

lemma to_dt_number: "is_number val \<Longrightarrow> to_dt L val = Inr None"
  by (cases val)
     (auto simp: to_dt_def py_int_def ebind_def fromtimestamp_utc_def make_aware_def Let_def
           split: sum.splits)

text \<open>
  Claim C5. The claim says that \<open>to_dt\<close> reads a number as an epoch, so that
  \<open>1699999999\<close> gives an instant of 2023 and \<open>1699999999000\<close> the same instant. The code
  returns \<open>None\<close> for both: \<open>fromtimestamp(..., tz=utc)\<close> gives an aware datetime,
  \<open>make_aware\<close> raises \<open>ValueError\<close> for it, and the \<open>except Exception\<close> of the numeric
  branch turns that into \<open>None\<close>.
\<close>

theorem to_dt_epoch_is_None:
  "to_dt L (JInt 1699999999) = Inr None \<and> to_dt L (JInt 1699999999000) = Inr None"
  by (simp add: to_dt_def py_int_def ebind_def fromtimestamp_utc_def make_aware_def Let_def)

section \<open>Properties of the work item table\<close>

lemma wi_matches_mem:
  "i \<in> set (wi_matches rows src sid) \<longleftrightarrow>
     i < length rows \<and> wi_source (rows ! i) = src \<and> wi_source_id (rows ! i) = sid"
  by (auto simp: wi_matches_def)

lemma wi_matches_snoc:
  "wi_matches (rows @ [r]) src sid =
     wi_matches rows src sid @ (if wi_source r = src \<and> wi_source_id r = sid then [length rows] else [])"
  unfolding wi_matches_def by (auto intro!: filter_cong simp: nth_append)

lemma wi_matches_update:
  assumes "i < length rows" "wi_source r = wi_source (rows ! i)" "wi_source_id r = wi_source_id (rows ! i)"
  shows "wi_matches (rows[i := r]) src sid = wi_matches rows src sid"
  unfolding wi_matches_def using assms
  by (auto intro!: filter_cong simp: nth_list_update)

lemma wi_create_result:
  assumes "wi_create clock st row = Inr (i, st')"
  shows "i = length (fst st)" and "fst st' = fst st @ [row\<lparr>wi_last_synced := clock (snd st)\<rparr>]"
    and "snd st' = Suc (snd st)" and "wi_source_id row \<notin> set (map wi_source_id (fst st))"
  using assms by (auto simp: wi_create_def timezone_now_def split: if_splits)

lemma wi_update_or_create_result:
  assumes u: "wi_update_or_create clock st src sid D = Inr (i, st')" and k: "keeps_key D"
  shows "wi_matches (fst st') src sid = [i]"
    and "i < length (fst st')"
    and "fst st' ! i = (D (case row_of (fst st) src sid of Some r \<Rightarrow> r | None \<Rightarrow> WorkItem_blank src sid))
                         \<lparr>wi_last_synced := clock (snd st)\<rparr>"
    and "snd st' = Suc (snd st)"
    and "\<forall>j < length (fst st). j \<noteq> i \<longrightarrow> fst st' ! j = fst st ! j"
    and "length (fst st') = (if row_of (fst st) src sid = None then Suc (length (fst st)) else length (fst st))"
proof -
  from k have kk: "\<And>row. wi_source (D row) = wi_source row" "\<And>row. wi_source_id (D row) = wi_source_id row"
    by (auto simp: keeps_key_def)
  have blank: "wi_source (WorkItem_blank src sid) = src" "wi_source_id (WorkItem_blank src sid) = sid"
    by (simp_all add: WorkItem_blank_def)
  consider (new) "wi_matches (fst st) src sid = []" | (one) j where "wi_matches (fst st) src sid = [j]"
    using u by (auto simp: wi_update_or_create_def split: list.splits)
  then have "wi_matches (fst st') src sid = [i] \<and> i < length (fst st')
    \<and> fst st' ! i = (D (case row_of (fst st) src sid of Some r \<Rightarrow> r | None \<Rightarrow> WorkItem_blank src sid))
                         \<lparr>wi_last_synced := clock (snd st)\<rparr>
    \<and> snd st' = Suc (snd st)
    \<and> (\<forall>j < length (fst st). j \<noteq> i \<longrightarrow> fst st' ! j = fst st ! j)
    \<and> length (fst st') = (if row_of (fst st) src sid = None then Suc (length (fst st)) else length (fst st))"
  proof cases
    case new
    with u have c: "wi_create clock st (D (WorkItem_blank src sid)) = Inr (i, st')"
      by (simp add: wi_update_or_create_def)
    note r = wi_create_result[OF c]
    from new r kk blank show ?thesis
      by (simp add: wi_matches_snoc row_of_def nth_append)
  next
    case (one j)
    then have "j \<in> set (wi_matches (fst st) src sid)" by simp
    then have j: "j < length (fst st)" "wi_source (fst st ! j) = src" "wi_source_id (fst st ! j) = sid"
      by (simp_all add: wi_matches_mem)
    from one u have e: "i = j" "st' = ((fst st)[j := (D (fst st ! j))\<lparr>wi_last_synced := clock (snd st)\<rparr>], Suc (snd st))"
      by (auto simp: wi_update_or_create_def timezone_now_def)
    have "wi_matches (fst st') src sid = wi_matches (fst st) src sid"
      using e j kk by (simp add: wi_matches_update)
    with one e j show ?thesis by (simp add: row_of_def)
  qed
  then show "wi_matches (fst st') src sid = [i]"
    and "i < length (fst st')"
    and "fst st' ! i = (D (case row_of (fst st) src sid of Some r \<Rightarrow> r | None \<Rightarrow> WorkItem_blank src sid))
                         \<lparr>wi_last_synced := clock (snd st)\<rparr>"
    and "snd st' = Suc (snd st)"
    and "\<forall>j < length (fst st). j \<noteq> i \<longrightarrow> fst st' ! j = fst st ! j"
    and "length (fst st') = (if row_of (fst st) src sid = None then Suc (length (fst st)) else length (fst st))"
    by blast+
qed

section \<open>Properties of the Jira normalizer\<close>

lemma least_cong: "set xs = set ys \<Longrightarrow> least xs = least ys"
  by (auto simp: least_def)

lemma py_min_instant:
  "dt_instant (py_min d ds) = Min (insert (dt_instant d) (dt_instant ` set ds))"
proof (induction ds arbitrary: d)
  case Nil show ?case by simp
next
  case (Cons x xs)
  have fin: "finite (dt_instant ` set xs)" by simp
  show ?case
  proof (cases "dt_instant x < dt_instant d")
    case True
    then have "Min (insert (dt_instant d) (insert (dt_instant x) (dt_instant ` set xs)))
             = Min (insert (dt_instant x) (dt_instant ` set xs))"
      by (simp add: min_def)
    with True Cons.IH[of x] show ?thesis by simp
  next
    case False
    then have "Min (insert (dt_instant d) (insert (dt_instant x) (dt_instant ` set xs)))
             = Min (insert (dt_instant d) (dt_instant ` set xs))"
      by (cases "xs = []") (auto simp: min_def insert_commute)
    with False Cons.IH[of d] show ?thesis by simp
  qed
qed

lemma earliest_least: "map_option dt_instant (earliest hits) = least (map dt_instant hits)"
  by (cases hits) (simp_all add: earliest_def least_def py_min_instant)

lemma jlower_por: "jlower (por ts (JStr [])) = Inr n \<Longrightarrow> n = lower (jstr ts)"
  by (cases ts) (auto simp: por_def jstr_def lower_def split: if_splits)

lemma status_item_result:
  assumes "status_item tls wh item hits = Inr hits'"
  shows "hits' = hits @ (if item_hit tls item then opt_hits wh else [])"
proof -
  from assms obtain field where f: "dget item ''field'' = Inr field"
    by (auto simp: status_item_def ebind_def split: sum.splits)
  then have fj: "field = jget item ''field''" by (rule dget_jget)
  show ?thesis
  proof (cases "field = JStr ''status''")
    case False
    with assms f fj show ?thesis by (simp add: status_item_def ebind_def item_hit_def)
  next
    case True
    with assms f obtain ts n where t: "dget item ''toString'' = Inr ts"
      and n: "jlower (por ts (JStr [])) = Inr n"
      and r: "(case wh of Some w \<Rightarrow> Inr (if n \<in> set tls then hits @ [w] else hits)
              | None \<Rightarrow> Inr hits) = (Inr hits' :: exn + datetime list)"
      by (auto simp: status_item_def ebind_def split: sum.splits)
    from t have "ts = jget item ''toString''" by (rule dget_jget)
    with jlower_por[OF n] have "n = lower (jstr (jget item ''toString''))" by simp
    with r True fj show ?thesis by (auto simp: item_hit_def split: option.splits if_splits)
  qed
qed

lemma status_item_JStr: "\<exists>e. status_item tls wh (JStr k) t = Inl e"
  by (simp add: status_item_def ebind_def dget_def)

lemma set_opt_hits: "set (opt_hits wh) = set_option wh"
  by (cases wh) simp_all

lemma status_items_set:
  "efold (status_item tls wh) its hits = Inr hits' \<Longrightarrow>
   set hits' = set hits \<union> (if list_ex (item_hit tls) its then set_option wh else {})"
proof (induction its arbitrary: hits)
  case Nil
  then show ?case by simp
next
  case (Cons item rest)
  from Cons.prems obtain h1 where
    s1: "status_item tls wh item hits = Inr h1" and
    r: "efold (status_item tls wh) rest h1 = Inr hits'"
    by (auto simp: ebind_def split: sum.splits)
  have a: "h1 = hits @ (if item_hit tls item then opt_hits wh else [])"
    using s1 by (rule status_item_result)
  have b: "set hits' = set h1 \<union> (if list_ex (item_hit tls) rest then set_option wh else {})"
    using r by (rule Cons.IH)
  show ?case unfolding b a by (auto simp: set_opt_hits)
qed


lemma parsed_opt: "to_dt L v = Inr wh \<Longrightarrow> parsed L v = map dt_instant (opt_hits wh)"
  by (cases wh) (simp_all add: parsed_def)

lemma dget_d_jlist: "dget_d h k (JArr []) = Inr v \<Longrightarrow> jlist v = jlist (jget h k)"
  by (cases h) (auto simp: jget_def jlist_def split: option.splits)

lemma status_history_JStr: "\<exists>e. status_history L tls (JStr k) t = Inl e"
  by (simp add: status_history_def ebind_def dget_def)

lemma status_history_set:
  assumes "status_history L tls h hits = Inr hits'"
  shows "set (map dt_instant hits') = set (map dt_instant hits)
           \<union> set (if list_ex (item_hit tls) (jlist (jget h ''items''))
                      then parsed L (jget h ''created'') else [])"
proof -
  from assms obtain created wh items0 its where
    c: "dget h ''created'' = Inr created" and
    w: "to_dt L created = Inr wh" and
    i0: "dget_d h ''items'' (JArr []) = Inr items0" and
    it: "iter (por items0 (JArr [])) = Inr its" and
    ef: "efold (status_item tls wh) its hits = Inr hits'"
    by (auto simp: status_history_def ebind_def split: sum.splits)
  from c have cj: "created = jget h ''created''" by (rule dget_jget)
  from iter_jlist[OF it ef status_item_JStr] dget_d_jlist[OF i0]
  have its: "its = jlist (jget h ''items'')" by simp
  from w cj have p: "parsed L (jget h ''created'') = map dt_instant (opt_hits wh)"
    using parsed_opt by blast
  have s: "set hits' = set hits \<union> (if list_ex (item_hit tls) its then set_option wh else {})"
    using ef by (rule status_items_set)
  have "set (map dt_instant hits') = dt_instant ` set hits'" by simp
  also have "\<dots> = dt_instant ` set hits \<union> (if list_ex (item_hit tls) its then dt_instant ` set_option wh else {})"
    unfolding s by auto
  finally show ?thesis unfolding its p by (auto simp: set_opt_hits)
qed

lemma status_histories_set:
  "efold (status_history L tls) hs hits = Inr hits' \<Longrightarrow>
   set (map dt_instant hits') = set (map dt_instant hits)
     \<union> set (concat (map (\<lambda>h. if list_ex (item_hit tls) (jlist (jget h ''items''))
                                then parsed L (jget h ''created'') else []) hs))"
proof (induction hs arbitrary: hits)
  case Nil
  then show ?case by simp
next
  case (Cons h rest)
  from Cons.prems obtain h1 where
    s1: "status_history L tls h hits = Inr h1" and
    r: "efold (status_history L tls) rest h1 = Inr hits'"
    by (auto simp: ebind_def split: sum.splits)
  note a = status_history_set[OF s1]
  note b = Cons.IH[OF r]
  show ?case unfolding b a by auto
qed

lemma emap_jlower: "emap jlower (map JStr targets) = Inr (map lower targets)"
  by (induction targets) (simp_all add: ebind_def)

lemma iter_names: "iter (por (JArr (map JStr targets)) (JArr [])) = Inr (map JStr targets)"
  by (cases targets) (simp_all add: por_def)

lemma dget_d_por_jlist:
  "dget_d (por u (JObj [])) k (JArr []) = Inr v \<Longrightarrow> jlist v = jlist (jget u k)"
  by (cases u) (auto simp: jget_def jlist_def por_def split: option.splits if_splits)

lemma status_time_least:
  assumes "status_time L issue (JArr (map JStr targets)) = Inr r"
  shows "map_option dt_instant r = least (transition_times L issue targets)"
proof -
  from assms obtain changelog histories0 hs hits where
    c: "dget (por issue (JObj [])) ''changelog'' = Inr changelog" and
    h0: "dget_d (por changelog (JObj [])) ''histories'' (JArr []) = Inr histories0" and
    it: "iter (por histories0 (JArr [])) = Inr hs" and
    ef: "efold (status_history L (map lower targets)) hs [] = Inr hits" and
    r: "r = earliest hits"
    by (auto simp: status_time_def ebind_def iter_names emap_jlower split: sum.splits)
  from c have "changelog = jget issue ''changelog''" by (rule dget_por_jget)
  with iter_jlist[OF it ef status_history_JStr] dget_d_por_jlist[OF h0]
  have hs: "hs = jlist (jget (jget issue ''changelog'') ''histories'')" by simp
  have "set (map dt_instant hits) = set (transition_times L issue targets)"
    using status_histories_set[OF ef]
    by (simp add: transition_times_def moves_to_def item_hit_def[abs_def] hs)
  then have "least (map dt_instant hits) = least (transition_times L issue targets)"
    by (rule least_cong)
  with r earliest_least show ?thesis by simp
qed


lemma status_time_por:
  "por t (JArr []) = por t' (JArr []) \<Longrightarrow> status_time L issue t = status_time L issue t'"
  by (simp add: status_time_def)

lemma strs_map: "list_all is_str xs \<Longrightarrow> xs = map JStr (map jstr xs)"
proof (induction xs)
  case Nil show ?case by simp
next
  case (Cons x xs)
  then show ?case by (cases x) (simp_all add: jstr_def)
qed

lemma step_time_least:
  assumes "step_time L self issue step = Inr r"
    and "names_or_none (jn_status_map self) step"
  shows "map_option dt_instant r
           = least (transition_times L issue (configured (jn_status_map self) step))"
proof -
  from assms(1) obtain v where
    v: "dget_d (jn_status_map self) step (JArr []) = Inr v" and
    st: "status_time L issue v = Inr r"
    by (auto simp: step_time_def ebind_def split: sum.splits)
  have "por v (JArr []) = por (JArr (map JStr (configured (jn_status_map self) step))) (JArr [])"
  proof (cases "jget (jn_status_map self) step")
    case JNull
    with v have "v = JNull \<or> v = JArr []"
      by (cases "jn_status_map self") (auto simp: jget_def split: option.splits)
    with JNull show ?thesis by (auto simp: configured_def jlist_def por_def)
  next
    case (JArr xs)
    with v have vx: "v = JArr xs"
      by (cases "jn_status_map self") (auto simp: jget_def split: option.splits)
    from assms(2) JArr have "list_all is_str xs" by (simp add: names_or_none_def)
    from strs_map[OF this] have "JArr xs = JArr (map JStr (map jstr xs))" by simp
    with vx JArr show ?thesis by (simp add: configured_def jlist_def)
  qed (use assms(2) in \<open>simp_all add: names_or_none_def\<close>)
  from status_time_por[OF this] st
  have "status_time L issue (JArr (map JStr (configured (jn_status_map self) step))) = Inr r"
    by simp
  then show ?thesis by (rule status_time_least)
qed

lemma ebind_Inr: "ebind m f = Inr y \<Longrightarrow> \<exists>x. m = Inr x \<and> f x = Inr y"
  by (cases m) (simp_all add: ebind_def)

lemma jira_extract_steps:
  assumes "jira_extract L self issue flds key = Inr l"
  shows "step_time L self issue ''dev_started'' = Inr (jl_dev_started_at l)"
    and "step_time L self issue ''dev_done'' = Inr (jl_dev_done_at l)"
    and "step_time L self issue ''ready_for_qa'' = Inr (jl_ready_for_qa_at l)"
    and "step_time L self issue ''qa_started'' = Inr (jl_qa_started_at l)"
    and "step_time L self issue ''qa_verified'' = Inr (jl_qa_verified_at l)"
    and "step_time L self issue ''signed_off'' = Inr (jl_signed_off_at l)"
    and "step_time L self issue ''ready_for_uat'' = Inr (jl_ready_for_uat_at l)"
    and "step_time L self issue ''deployed_uat'' = Inr (jl_deployed_uat_at l)"
  using assms unfolding jira_extract_def
  by (auto dest!: ebind_Inr)

lemma jira_keeps_key:
  "keeps_key (\<lambda>row. (jira_defaults L self l parent d p row)\<lparr>wi_blocked_since := bs\<rparr>)"
  by (simp add: keeps_key_def jira_defaults_def)

lemma jira_normalize_one_counted:
  assumes "jira_normalize_one L clock self rp st = Inr (True, st')"
  shows "\<exists>flds key l parent st1 d p bs st2 i.
           jira_extract L self (jira_issue rp) flds key = Inr l
         \<and> upsert_parent L clock st (jn_board self) ''jira'' (jl_parent_key l) = Inr (parent, st1)
         \<and> jira_blocked_since clock st1 (row_of (fst st1) ''jira'' (jira_source_id L rp))
               (jl_blocked_flag l) = (bs, st2)
         \<and> wi_update_or_create clock st2 ''jira'' (jira_source_id L rp)
               (\<lambda>row. (jira_defaults L self l parent d p row)\<lparr>wi_blocked_since := bs\<rparr>) = Inr (i, st')"
proof -
  let ?issue = "jira_issue rp"
  from assms have src: "rp_source rp = ''jira''" "rp_object_type rp = ''issue''"
    by (auto simp: jira_normalize_one_def split: if_splits)
  with assms obtain flds0 k1 k2 where
    f0: "dget ?issue ''fields'' = Inr flds0" and
    k1: "dget ?issue ''key'' = Inr k1" and
    k2: "dget ?issue ''id'' = Inr k2" and
    rest: "(if \<not> truthy (por k1 k2) then Inr (False, st)
         else
           ebind (jira_extract L self ?issue (por flds0 (JObj [])) (por k1 k2)) (\<lambda>l.
           ebind (upsert_parent L clock st (jn_board self) ''jira'' (jl_parent_key l))
             (\<lambda>(parent_story, st1).
           ebind (dget (por flds0 (JObj [])) ''description'') (\<lambda>description.
           ebind (dget (por flds0 (JObj [])) ''project'') (\<lambda>project0.
           ebind (dget (por project0 (JObj [])) ''key'') (\<lambda>project_key.
           let existing = (case wi_matches (fst st1) ''jira'' (py_str L (por k1 k2)) of
                             [] \<Rightarrow> None | i # rest \<Rightarrow> Some (fst st1 ! i))
           in case jira_blocked_since clock st1 existing (jl_blocked_flag l) of
                (blocked_since, st2) \<Rightarrow>
                  ebind (wi_update_or_create clock st2 ''jira'' (py_str L (por k1 k2))
                          (\<lambda>row. (jira_defaults L self l parent_story description project_key row)
                                   \<lparr>wi_blocked_since := blocked_since\<rparr>))
                    (\<lambda>(i, st3). Inr (True, st3)))))))) = Inr (True, st')"
    unfolding jira_normalize_one_def jira_issue_def Let_def
    by (auto dest!: ebind_Inr)
  from dget_jget[OF k1] dget_jget[OF k2] have sid: "py_str L (por k1 k2) = jira_source_id L rp"
    by (simp add: jira_source_id_def)
  from rest have t: "truthy (por k1 k2)" by (auto split: if_splits)
  with rest sid obtain l parent st1 d p bs st2 i where
    "jira_extract L self (jira_issue rp) (por flds0 (JObj [])) (por k1 k2) = Inr l"
    "upsert_parent L clock st (jn_board self) ''jira'' (jl_parent_key l) = Inr (parent, st1)"
    "jira_blocked_since clock st1 (row_of (fst st1) ''jira'' (jira_source_id L rp))
               (jl_blocked_flag l) = (bs, st2)"
    "wi_update_or_create clock st2 ''jira'' (jira_source_id L rp)
               (\<lambda>row. (jira_defaults L self l parent d p row)\<lparr>wi_blocked_since := bs\<rparr>) = Inr (i, st')"
    by (auto simp: row_of_def Let_def split: prod.splits dest!: ebind_Inr)
  then show ?thesis by blast
qed

lemma to_dt_offset1:
  "to_dt sample_lib (JStr ''2024-01-01T00:00:00+0000'')
     = Inr (Some \<lparr>dt_instant = 1704067200000000, dt_tzinfo = Some 0\<rparr>)"
  by (simp add: to_dt_def py_strip_def is_space_def offset_suffix_def is_digit_def ebind_def
        Let_def sample_lib_def sample_parse_datetime_def)

lemma to_dt_offset2:
  "to_dt sample_lib (JStr ''2024-01-02T00:00:00+0000'')
     = Inr (Some \<lparr>dt_instant = 1704153600000000, dt_tzinfo = Some 0\<rparr>)"
  by (simp add: to_dt_def py_strip_def is_space_def offset_suffix_def is_digit_def ebind_def
        Let_def sample_lib_def sample_parse_datetime_def)

lemmas jira_eval =
  jira_normalize_one_def jira_extract_def step_time_def status_time_def status_history_def
  status_item_def jira_sprint_id_def map_item_type_def contains_blocked_def upsert_parent_def
  jira_blocked_since_def wi_update_or_create_def wi_get_or_create_def wi_matches_def
  wi_create_def timezone_now_def jira_defaults_def WorkItem_blank_def earliest_def
  JiraNormalizer_init_def dget_def por_def ebind_def Let_def lower_def lower_char_def
  py_str_def py_float_def sample_config_def sample_board_def sample_clock_def
  sample_history_def sample_issue_def sample_rp_def to_dt_offset1 to_dt_offset2 to_dt_falsy

lemma sample_run:
  "\<exists>st'. jira_normalize_one sample_lib sample_clock (JiraNormalizer_init sample_config sample_board)
            (sample_rp ''In Review'') ([], 0) = Inr (True, st')
        \<and> wi_dev_started_at (fst st' ! 0) = Some 1704067200000000
        \<and> wi_ready_for_qa_at (fst st' ! 0) = Some 1704153600000000"
  by (simp add: jira_eval)


text \<open>
  Claim C4. When the Jira normalizer has normalized a raw payload, with a status map
  that gives each step a list of names or nothing, the table holds one row for the
  issue, and each of its eight canonical step timestamps is the earliest time among
  the changelog entries whose status transition has a target name that is, up to case,
  among the names configured for that step (null when there is no such entry). The
  scenario of the claim is the example that follows: transitions to "In Progress" on
  the first of January and to "In Review" on the second, with \<open>dev_started\<close> mapped to
  "In Progress" and \<open>ready_for_qa\<close> to "In Review", give \<open>dev_started_at\<close> the first and
  \<open>ready_for_qa_at\<close> the second.
\<close>

theorem jira_step_timestamps:
  assumes "jira_normalize_one L clock self rp st = Inr (True, st')"
    and "list_all (names_or_none (jn_status_map self)) STEP_NAMES"
  shows "\<exists>i. wi_matches (fst st') ''jira'' (jira_source_id L rp) = [i]
           \<and> step_fields (fst st' ! i)
               = map (\<lambda>step. least (transition_times L (jira_issue rp)
                                    (configured (jn_status_map self) step))) STEP_NAMES"
proof -
  from jira_normalize_one_counted[OF assms(1)] obtain flds key l parent st1 d p bs st2 i where
    ex: "jira_extract L self (jira_issue rp) flds key = Inr l" and
    up: "wi_update_or_create clock st2 ''jira'' (jira_source_id L rp)
               (\<lambda>row. (jira_defaults L self l parent d p row)\<lparr>wi_blocked_since := bs\<rparr>) = Inr (i, st')"
    by blast
  note r = wi_update_or_create_result[OF up jira_keeps_key]
  from r(3) have f: "step_fields (fst st' ! i)
      = map (map_option dt_instant)
          [jl_dev_started_at l, jl_dev_done_at l, jl_ready_for_qa_at l, jl_qa_started_at l,
           jl_qa_verified_at l, jl_signed_off_at l, jl_ready_for_uat_at l, jl_deployed_uat_at l]"
    by (simp add: step_fields_def jira_defaults_def)
  from assms(2) have n: "\<And>step. step \<in> set STEP_NAMES \<Longrightarrow> names_or_none (jn_status_map self) step"
    by (simp add: list_all_iff)
  have t: "map_option dt_instant x
             = least (transition_times L (jira_issue rp) (configured (jn_status_map self) step))"
    if "step_time L self (jira_issue rp) step = Inr x" "step \<in> set STEP_NAMES" for step x
    using step_time_least[OF that(1) n[OF that(2)]] .
  note s = jira_extract_steps[OF ex]
  have "step_fields (fst st' ! i)
               = map (\<lambda>step. least (transition_times L (jira_issue rp)
                                    (configured (jn_status_map self) step))) STEP_NAMES"
    unfolding f
    using t[OF s(1)] t[OF s(2)] t[OF s(3)] t[OF s(4)] t[OF s(5)] t[OF s(6)] t[OF s(7)] t[OF s(8)]
    by (simp add: STEP_NAMES_def)
  with r(1) show ?thesis by blast
qed

lemma sample_names:
  "list_all (names_or_none (jn_status_map (JiraNormalizer_init sample_config sample_board))) STEP_NAMES"
  by (simp add: STEP_NAMES_def names_or_none_def JiraNormalizer_init_def sample_config_def
        por_def jget_def)

lemma sample_times:
  "map (\<lambda>step. least (transition_times sample_lib (jira_issue (sample_rp ''In Review''))
           (configured (jn_status_map (JiraNormalizer_init sample_config sample_board)) step)))
       STEP_NAMES
   = [Some 1704067200000000, None, Some 1704153600000000, None, None, None, None, None]"
  by (simp add: STEP_NAMES_def least_def transition_times_def moves_to_def configured_def
        jira_issue_def sample_rp_def sample_issue_def sample_history_def por_def jget_def
        jlist_def jstr_def parsed_def to_dt_offset1 to_dt_offset2 JiraNormalizer_init_def
        sample_config_def lower_def lower_char_def)

theorem jira_step_timestamps_witness:
  "\<exists>st' i. jira_normalize_one sample_lib sample_clock
              (JiraNormalizer_init sample_config sample_board) (sample_rp ''In Review'') ([], 0)
            = Inr (True, st')
         \<and> wi_matches (fst st') ''jira'' ''PROJ-1'' = [i]
         \<and> step_fields (fst st' ! i)
             = [Some 1704067200000000, None, Some 1704153600000000, None, None, None, None, None]"
proof -
  from sample_run obtain st' where
    h: "jira_normalize_one sample_lib sample_clock
          (JiraNormalizer_init sample_config sample_board) (sample_rp ''In Review'') ([], 0)
        = Inr (True, st')"
    by blast
  have sid: "jira_source_id sample_lib (sample_rp ''In Review'') = ''PROJ-1''"
    by (simp add: jira_source_id_def jira_issue_def sample_rp_def sample_issue_def por_def
          jget_def py_str_def)
  from jira_step_timestamps [OF h sample_names] h show ?thesis
    unfolding sample_times sid by blast
qed

section \<open>Properties of the ticket helpers\<close>

lemma newest_mem: "newest ts is = Some i \<Longrightarrow> i \<in> set is"
  by (induction "is" arbitrary: i) (auto split: option.splits if_splits)

lemma newest_None: "newest ts is = None \<longleftrightarrow> is = []"
  by (cases "is") (auto split: option.splits)

lemma open_rows_upd:
  assumes "i < length ts" "same_key b w r (ts ! i)" "rt_status (ts ! i) \<noteq> DONE"
  shows "open_rows (ts[i := (ts ! i)\<lparr>rt_message := m, rt_meta := e\<rparr>]) b w r = open_rows ts b w r"
  unfolding open_rows_def using assms
  by (auto intro!: filter_cong simp: nth_list_update same_key_def)

lemma open_rows_mem: "i \<in> set (open_rows ts b w r) \<longleftrightarrow> i < length ts \<and> same_key b w r (ts ! i) \<and> rt_status (ts ! i) \<noteq> DONE"
  by (auto simp: open_rows_def)

lemma open_rows_snoc:
  "open_rows (ts @ [t]) b w r = open_rows ts b w r @ (if same_key b w r t \<and> rt_status t \<noteq> DONE then [length ts] else [])"
  unfolding open_rows_def
  by (auto intro!: filter_cong simp: nth_append)

lemma open_ticket_existing:
  assumes "newest ts (open_rows ts b w r) = Some i"
  shows "open_rows (fst (open_ticket ts now b w r msg m0)) b w r = open_rows ts b w r"
    and "rt_message (fst (open_ticket ts now b w r msg m0) ! i) = msg"
    and "length (fst (open_ticket ts now b w r msg m0)) = length ts"
proof -
  from assms have "i \<in> set (open_rows ts b w r)" by (rule newest_mem)
  then have i: "i < length ts" "same_key b w r (ts ! i)" "rt_status (ts ! i) \<noteq> DONE"
    by (simp_all add: open_rows_mem)
  show "open_rows (fst (open_ticket ts now b w r msg m0)) b w r = open_rows ts b w r"
    using assms i by (simp add: open_ticket_def Let_def open_rows_upd)
  show "rt_message (fst (open_ticket ts now b w r msg m0) ! i) = msg"
    using assms i by (simp add: open_ticket_def Let_def)
  show "length (fst (open_ticket ts now b w r msg m0)) = length ts"
    using assms i by (simp add: open_ticket_def Let_def)
qed

lemma open_ticket_fresh:
  assumes "open_rows ts b w r = []"
  shows "open_rows (fst (open_ticket ts now b w r msg m0)) b w r = [length ts]"
    and "rt_message (fst (open_ticket ts now b w r msg m0) ! length ts) = msg"
  using assms by (simp_all add: open_ticket_def Let_def open_rows_snoc same_key_def)

lemma open_ticket_one:
  assumes "length (open_rows ts b w r) \<le> 1"
  shows "\<exists>i. open_rows (fst (open_ticket ts now b w r msg m0)) b w r = [i]
            \<and> rt_message (fst (open_ticket ts now b w r msg m0) ! i) = msg"
proof (cases "open_rows ts b w r")
  case Nil
  then show ?thesis using open_ticket_fresh[of ts b w r now msg m0] by blast
next
  case (Cons i rest)
  with assms have eq: "open_rows ts b w r = [i]" by (cases rest) auto
  then have "newest ts (open_rows ts b w r) = Some i" by simp
  from open_ticket_existing(1,2)[OF this, of now msg m0] eq show ?thesis by auto
qed

lemma open_ticket_calls_one:
  "calls \<noteq> [] \<Longrightarrow> length (open_rows ts b w r) \<le> 1 \<Longrightarrow>
   \<exists>i. open_rows (open_ticket_calls ts b w r calls) b w r = [i]
      \<and> rt_message (open_ticket_calls ts b w r calls ! i) = fst (snd (last calls))"
proof (induction calls arbitrary: ts)
  case Nil then show ?case by simp
next
  case (Cons c cs)
  obtain now msg m0 where c: "c = (now, msg, m0)" by (cases c)
  let ?ts1 = "fst (open_ticket ts now b w r msg m0)"
  from open_ticket_one[OF Cons.prems(2), of now msg m0]
  obtain i where i: "open_rows ?ts1 b w r = [i]" "rt_message (?ts1 ! i) = msg" by blast
  show ?case
  proof (cases "cs = []")
    case True with i c show ?thesis by simp
  next
    case False
    from i have "length (open_rows ?ts1 b w r) \<le> 1" by simp
    from Cons.IH[OF False this] False c show ?thesis by simp
  qed
qed

text \<open>
  Claim C1. For every board, work item and rule code: after one or more calls of
  \<open>open_ticket\<close> in a row for the same key, with any messages and \<open>meta\<close> arguments, on
  a table that holds at most one ticket that is not done for that key (the invariant
  of the table, true of the empty table), exactly one ticket that is not done has
  that key, and its message is the message of the last call. Every prefix of the calls
  is such a sequence, so no duplicate exists at any moment.
\<close>

theorem open_ticket_no_duplicate:
  assumes "calls \<noteq> []"
    and "length (open_rows ts board work_item rule_code) \<le> 1"
  shows "\<exists>i. open_rows (open_ticket_calls ts board work_item rule_code calls)
                 board work_item rule_code = [i]
             \<and> rt_message (open_ticket_calls ts board work_item rule_code calls ! i)
                 = fst (snd (last calls))"
  using assms by (rule open_ticket_calls_one)

theorem open_ticket_no_duplicate_witness:
  "\<exists>i. open_rows (open_ticket_calls
            [\<lparr>rt_board = 1, rt_work_item = Some 7, rt_rule_code = ''STUCK_IN_DEV'',
              rt_message = ''old'', rt_status = DONE, rt_created_at = 5,
              rt_resolved_at = Some 6, rt_meta = Map.empty\<rparr>]
            1 (Some 7) ''STUCK_IN_DEV''
            [(10, ''first'', None), (20, ''second'', Some [''days'' \<mapsto> JInt 9]),
             (30, ''third'', None)])
          1 (Some 7) ''STUCK_IN_DEV'' = [i]
      \<and> rt_message (open_ticket_calls
            [\<lparr>rt_board = 1, rt_work_item = Some 7, rt_rule_code = ''STUCK_IN_DEV'',
              rt_message = ''old'', rt_status = DONE, rt_created_at = 5,
              rt_resolved_at = Some 6, rt_meta = Map.empty\<rparr>]
            1 (Some 7) ''STUCK_IN_DEV''
            [(10, ''first'', None), (20, ''second'', Some [''days'' \<mapsto> JInt 9]),
             (30, ''third'', None)] ! i) = ''third''"
  using open_ticket_no_duplicate [of
      "[(10, ''first'', None), (20, ''second'', Some [''days'' \<mapsto> JInt 9]), (30, ''third'', None)]"
      "[\<lparr>rt_board = 1, rt_work_item = Some 7, rt_rule_code = ''STUCK_IN_DEV'',
              rt_message = ''old'', rt_status = DONE, rt_created_at = 5,
              rt_resolved_at = Some 6, rt_meta = Map.empty\<rparr>]"
      1 "Some 7" "''STUCK_IN_DEV''"]
  by (simp add: open_rows_def)

text \<open>
  Claim C10. When a ticket that is not done exists for the key, a call of
  \<open>open_ticket\<close> for that key with an absent or empty \<open>meta\<close> argument changes nothing
  but the message of one such ticket: the table keeps its length, every other row is
  as before, and that row keeps every field other than its message, its \<open>meta\<close>
  included.
\<close>

theorem open_ticket_keeps_meta:
  assumes "open_rows ts board work_item rule_code \<noteq> []"
    and "meta0 = None \<or> meta0 = Some Map.empty"
  shows "\<exists>i. i \<in> set (open_rows ts board work_item rule_code)
           \<and> fst (open_ticket ts now board work_item rule_code message meta0)
               = ts[i := (ts ! i)\<lparr>rt_message := message\<rparr>]"
proof -
  from assms(1) obtain i where n: "newest ts (open_rows ts board work_item rule_code) = Some i"
    using newest_None [of ts "open_rows ts board work_item rule_code"] by (cases "newest ts (open_rows ts board work_item rule_code)") auto
  then have mem: "i \<in> set (open_rows ts board work_item rule_code)" by (rule newest_mem)
  have m: "(case meta0 of None \<Rightarrow> Map.empty | Some m \<Rightarrow> m) = Map.empty"
    using assms(2) by auto
  have "fst (open_ticket ts now board work_item rule_code message meta0)
          = ts[i := (ts ! i)\<lparr>rt_message := message\<rparr>]"
  proof (cases "rt_message (ts ! i) = message")
    case True
    then have "(ts ! i)\<lparr>rt_message := message\<rparr> = ts ! i" by simp
    then have "ts[i := (ts ! i)\<lparr>rt_message := message\<rparr>] = ts" by simp
    moreover have "fst (open_ticket ts now board work_item rule_code message meta0) = ts"
      using n m True by (simp add: open_ticket_def Let_def)
    ultimately show ?thesis by simp
  next
    case False
    then show ?thesis using n m by (simp add: open_ticket_def Let_def)
  qed
  with mem show ?thesis by blast
qed

theorem open_ticket_keeps_meta_witness:
  "\<exists>i. i \<in> set (open_rows
            [\<lparr>rt_board = 1, rt_work_item = Some 7, rt_rule_code = ''BLOCKED_SLA'',
              rt_message = ''old'', rt_status = OPEN, rt_created_at = 5,
              rt_resolved_at = None, rt_meta = [''sla_hours'' \<mapsto> JInt 48]\<rparr>]
            1 (Some 7) ''BLOCKED_SLA'')
      \<and> fst (open_ticket
            [\<lparr>rt_board = 1, rt_work_item = Some 7, rt_rule_code = ''BLOCKED_SLA'',
              rt_message = ''old'', rt_status = OPEN, rt_created_at = 5,
              rt_resolved_at = None, rt_meta = [''sla_hours'' \<mapsto> JInt 48]\<rparr>]
            9 1 (Some 7) ''BLOCKED_SLA'' ''new'' None)
          = [\<lparr>rt_board = 1, rt_work_item = Some 7, rt_rule_code = ''BLOCKED_SLA'',
              rt_message = ''new'', rt_status = OPEN, rt_created_at = 5,
              rt_resolved_at = None, rt_meta = [''sla_hours'' \<mapsto> JInt 48]\<rparr>]"
  using open_ticket_keeps_meta [of
      "[\<lparr>rt_board = 1, rt_work_item = Some 7, rt_rule_code = ''BLOCKED_SLA'',
              rt_message = ''old'', rt_status = OPEN, rt_created_at = 5,
              rt_resolved_at = None, rt_meta = [''sla_hours'' \<mapsto> JInt 48]\<rparr>]"
      1 "Some 7" "''BLOCKED_SLA''" None 9 "''new''"]
  by (simp add: open_rows_def same_key_def)

section \<open>Properties of the pull request rows\<close>

lemma add_unique_by_eq:
  "add_unique_by eq acc xs
     = acc @ ordered_unique_by eq (filter (\<lambda>y. \<not> list_ex (\<lambda>a. eq a y) acc) xs)"
proof (induction xs arbitrary: acc)
  case Nil show ?case by simp
next
  case (Cons x xs)
  show ?case
  proof (cases "list_ex (\<lambda>a. eq a x) acc")
    case True then show ?thesis using Cons.IH[of acc] by simp
  next
    case False
    have "filter (\<lambda>y. \<not> list_ex (\<lambda>a. eq a y) (acc @ [x])) xs
            = filter (\<lambda>y. \<not> eq x y) (filter (\<lambda>y. \<not> list_ex (\<lambda>a. eq a y) acc) xs)"
      by (induction xs) auto
    then show ?thesis using False Cons.IH[of "acc @ [x]"] by simp
  qed
qed

lemma review_step_result:
  assumes "review_step L r (rs, f) = Inr (rs', f')"
  shows "rs' = add_unique_by py_eq rs (filter truthy [jget (jget r ''user'') ''login''])"
    and "f = None \<Longrightarrow> map_option dt_instant f' = (case parsed L (jget r ''submitted_at'') of [] \<Rightarrow> None | t # _ \<Rightarrow> Some t)"
    and "f \<noteq> None \<Longrightarrow> f' = f"
  using assms
  by (auto simp: review_step_def ebind_def Let_def parsed_def to_dt_falsy py_mem_def
           split: sum.splits if_splits option.splits dest!: dget_jget dget_por_jget)

lemma review_step_JStr: "\<exists>e. review_step L (JStr k) t = Inl e"
  by (cases t) (simp add: review_step_def ebind_def dget_def)

lemma review_efold:
  assumes "efold (review_step L) rs (acc, f) = Inr (rs', f')"
  shows "rs' = add_unique_by py_eq acc (filter truthy (map (\<lambda>r. jget (jget r ''user'') ''login'') rs))
       \<and> (f = None \<longrightarrow> map_option dt_instant f' =
             (case concat (map (\<lambda>r. parsed L (jget r ''submitted_at'')) rs) of [] \<Rightarrow> None | t # _ \<Rightarrow> Some t))
       \<and> (f \<noteq> None \<longrightarrow> f' = f)"
  using assms
proof (induction rs arbitrary: acc f)
  case Nil then show ?case by simp
next
  case (Cons r rs)
  from Cons.prems obtain a1 f1 where
    s1: "review_step L r (acc, f) = Inr (a1, f1)" and
    rest: "efold (review_step L) rs (a1, f1) = Inr (rs', f')"
    by (auto simp: ebind_def split: sum.splits)
  note st = review_step_result[OF s1]
  note ih = Cons.IH[OF rest]
  show ?case
  proof (intro conjI impI)
    show "rs' = add_unique_by py_eq acc (filter truthy (map (\<lambda>r. jget (jget r ''user'') ''login'') (r # rs)))"
      using st(1) ih by auto
    show "map_option dt_instant f' =
             (case concat (map (\<lambda>r. parsed L (jget r ''submitted_at'')) (r # rs)) of [] \<Rightarrow> None | t # _ \<Rightarrow> Some t)"
      if "f = None"
    proof (cases f1)
      case None
      with st(2)[OF that] have "parsed L (jget r ''submitted_at'') = []"
        by (auto split: list.splits)
      with ih None show ?thesis by simp
    next
      case (Some d)
      with st(2)[OF that] obtain t ts where p: "parsed L (jget r ''submitted_at'') = t # ts" "dt_instant d = t"
        by (auto split: list.splits)
      from ih Some have "f' = Some d" by simp
      with p show ?thesis by simp
    qed
    show "f' = f" if "f \<noteq> None"
      using st(3)[OF that] ih that by auto
  qed
qed

lemma least_sorted: "sorted ts \<Longrightarrow> least ts = (case ts of [] \<Rightarrow> None | t # _ \<Rightarrow> Some t)"
  by (cases ts) (auto simp: least_def intro!: Min_eqI)

lemma pr_matches_mem: "i \<in> set (pr_matches prs pid) \<Longrightarrow> i < length prs \<and> pr_pr_id (prs ! i) = pid"
  by (auto simp: pr_matches_def)

lemma pr_update_or_create_result:
  assumes "pr_update_or_create prs pid D = Inr (i, prs')"
    and "\<And>row. pr_pr_id (D row) = pr_pr_id row"
  shows "i < length prs' \<and> pr_pr_id (prs' ! i) = pid \<and> (\<exists>row. prs' ! i = D row)"
proof (cases "pr_matches prs pid")
  case Nil
  with assms show ?thesis by (auto simp: pr_update_or_create_def PR_blank_def nth_append)
next
  case (Cons j js)
  with assms(1) have js: "js = []" and i: "i = j" and p: "prs' = prs[j := D (prs ! j)]"
    by (auto simp: pr_update_or_create_def split: list.splits)
  from Cons have "j \<in> set (pr_matches prs pid)" by simp
  from pr_matches_mem[OF this] i p assms(2) show ?thesis by auto
qed

lemma github_defaults_fields:
  "pr_pr_id (github_defaults L owner name title branch author o1 f1 m1 rs row) = pr_pr_id row"
  "pr_reviewer_ids (github_defaults L owner name title branch author o1 f1 m1 rs row) = map (py_str L) rs"
  "pr_first_reviewed_at (github_defaults L owner name title branch author o1 f1 m1 rs row) = map_option dt_instant f1"
  by (simp_all add: github_defaults_def)

lemma github_upsert_parts:
  assumes "github_upsert L rp prs = Inr (Some (i, prs'))"
  shows "\<exists>owner name title branch author opened_at first_reviewed_at merged_at reviewers rs.
           truthy (rp_payload rp)
         \<and> pr_update_or_create prs (pr_key L (rp_payload rp))
              (github_defaults L owner name title branch author opened_at first_reviewed_at
                 merged_at reviewers) = Inr (i, prs')
         \<and> iter (por (jget (rp_payload rp) ''reviews'') (JArr [])) = Inr rs
         \<and> efold (review_step L) rs ([], None) = Inr (reviewers, first_reviewed_at)"
proof -
  have t: "truthy (rp_payload rp)"
  proof (rule ccontr)
    assume "\<not> truthy (rp_payload rp)"
    then have "por (rp_payload rp) (JObj []) = JObj []" by (simp add: por_def)
    with assms show False
      by (simp add: github_upsert_def Let_def ebind_def dget_def por_def split: if_splits)
  qed
  then have p: "por (rp_payload rp) (JObj []) = rp_payload rp" by (simp add: por_def)
  from assms show ?thesis
    unfolding github_upsert_def Let_def p pr_key_def
    apply (auto split: if_splits prod.splits dest!: ebind_Inr dget_jget dget_por_jget simp: t)
    apply blast
    done
qed

text \<open>
  Claim C8, as the code has it. When \<open>GitHubPRNormalizer.normalize\<close> writes the row of
  a pull request (the record is not skipped and nothing raises), the row is the one of
  the payload's owner, repository and number; its reviewer list is the ordered-unique
  list of the reviewer identifiers in review order (identifiers compared as Python's
  \<open>==\<close> compares them, stored as strings); and its first-review timestamp is the
  \<open>submitted_at\<close> of the first review record, in the order of the payload, whose
  \<open>submitted_at\<close> is present and parses to a time (null when there is none). Where the
  payload lists the reviews by time, that is the minimum.
\<close>

theorem github_first_review_in_order:
  assumes "github_upsert L rp prs = Inr (Some (i, prs'))"
  shows "i < length prs' \<and> pr_pr_id (prs' ! i) = pr_key L (rp_payload rp)
       \<and> pr_reviewer_ids (prs' ! i)
           = map (py_str L) (ordered_unique_by py_eq (reviewer_logins (rp_payload rp)))
       \<and> pr_first_reviewed_at (prs' ! i) =
           (case submitted_times L (rp_payload rp) of [] \<Rightarrow> None | t # ts \<Rightarrow> Some t)
       \<and> (sorted (submitted_times L (rp_payload rp)) \<longrightarrow>
           pr_first_reviewed_at (prs' ! i) = least (submitted_times L (rp_payload rp)))"
proof -
  from github_upsert_parts[OF assms] obtain owner name title branch author opened_at
      first_reviewed_at merged_at reviewers rs where
    up: "pr_update_or_create prs (pr_key L (rp_payload rp))
              (github_defaults L owner name title branch author opened_at first_reviewed_at
                 merged_at reviewers) = Inr (i, prs')" and
    it: "iter (por (jget (rp_payload rp) ''reviews'') (JArr [])) = Inr rs" and
    ef: "efold (review_step L) rs ([], None) = Inr (reviewers, first_reviewed_at)"
    by blast
  from iter_jlist[OF it ef review_step_JStr]
  have rv: "rs = jlist (jget (rp_payload rp) ''reviews'')" by simp
  from review_efold[OF ef] rv
  have a: "reviewers = ordered_unique_by py_eq (reviewer_logins (rp_payload rp))"
    and b: "map_option dt_instant first_reviewed_at =
           (case submitted_times L (rp_payload rp) of [] \<Rightarrow> None | t # ts \<Rightarrow> Some t)"
    by (simp_all add: add_unique_by_eq reviewer_logins_def submitted_times_def)
  from pr_update_or_create_result[OF up github_defaults_fields(1)]
  obtain row where i: "i < length prs'" and k: "pr_pr_id (prs' ! i) = pr_key L (rp_payload rp)"
    and r: "prs' ! i = github_defaults L owner name title branch author opened_at
                 first_reviewed_at merged_at reviewers row"
    by blast
  from r a have c: "pr_reviewer_ids (prs' ! i)
           = map (py_str L) (ordered_unique_by py_eq (reviewer_logins (rp_payload rp)))"
    by (simp add: github_defaults_fields)
  from r b have d: "pr_first_reviewed_at (prs' ! i) =
           (case submitted_times L (rp_payload rp) of [] \<Rightarrow> None | t # ts \<Rightarrow> Some t)"
    by (simp add: github_defaults_fields)
  from i k c d least_sorted show ?thesis by auto
qed

lemma to_dt_github1: "to_dt github_lib (JStr ''2024-01-01T00:00:00Z'') = Inr (Some \<lparr>dt_instant = 1704067200000000, dt_tzinfo = Some 0\<rparr>)"
  by (simp add: to_dt_def py_strip_def is_space_def offset_suffix_def is_digit_def ebind_def Let_def github_lib_def sample_lib_def sample_parse_datetime_def)

lemma to_dt_github2: "to_dt github_lib (JStr ''2024-01-02T00:00:00Z'') = Inr (Some \<lparr>dt_instant = 1704153600000000, dt_tzinfo = Some 0\<rparr>)"
  by (simp add: to_dt_def py_strip_def is_space_def offset_suffix_def is_digit_def ebind_def Let_def github_lib_def sample_lib_def sample_parse_datetime_def)

lemma repr_github: "repr github_lib (JInt 7) = ''7''"
  by (simp add: github_lib_def)

lemma github_upsert_sample:
  "github_upsert github_lib sample_pr_record [] =
     Inr (Some (0, [(PR_blank ''acme/cbm#7'')
        \<lparr>pr_title := Some ''Fix'',
         pr_first_reviewed_at := Some 1704153600000000,
         pr_reviewer_ids := [''bob'', ''amy''],
         pr_meta := JObj [(''repo'', JStr ''acme/cbm'')]\<rparr>]))"
  by (simp add: github_upsert_def sample_pr_record_def sample_pr_payload_def ebind_def dget_def
        por_def review_step_def Let_def to_dt_github1 to_dt_github2 to_dt_falsy py_mem_def
        py_str_def repr_github pr_update_or_create_def pr_matches_def github_defaults_def
        PR_blank_def opt_str_def)

lemma submitted_times_sample:
  "submitted_times github_lib sample_pr_payload = [1704153600000000, 1704067200000000]"
  by (simp add: submitted_times_def sample_pr_payload_def jget_def jlist_def parsed_def
        to_dt_github1 to_dt_github2 to_dt_falsy)

theorem github_first_review_in_order_witness:
  "github_upsert github_lib sample_pr_record [] =
     Inr (Some (0, [(PR_blank ''acme/cbm#7'')
        \<lparr>pr_title := Some ''Fix'',
         pr_first_reviewed_at := Some 1704153600000000,
         pr_reviewer_ids := [''bob'', ''amy''],
         pr_meta := JObj [(''repo'', JStr ''acme/cbm'')]\<rparr>]))
   \<and> map (py_str github_lib) (ordered_unique_by py_eq (reviewer_logins sample_pr_payload))
       = [''bob'', ''amy'']
   \<and> submitted_times github_lib sample_pr_payload = [1704153600000000, 1704067200000000]
   \<and> pr_key github_lib sample_pr_payload = ''acme/cbm#7''"
proof -
  have p: "rp_payload sample_pr_record = sample_pr_payload" by (simp add: sample_pr_record_def)
  from github_first_review_in_order [OF github_upsert_sample] github_upsert_sample
    submitted_times_sample
  show ?thesis by (simp add: p PR_blank_def)
qed

text \<open>
  Claim C8, as stated, fails on a pull request whose reviews are not listed by time:
  the row that is written has the second of January as its first-review timestamp, the
  time of the first record, and the minimum of the \<open>submitted_at\<close> values is the first
  of January.
\<close>

theorem first_review_not_minimum:
  "github_upsert github_lib sample_pr_record [] =
     Inr (Some (0, [(PR_blank ''acme/cbm#7'')
        \<lparr>pr_title := Some ''Fix'',
         pr_first_reviewed_at := Some 1704153600000000,
         pr_reviewer_ids := [''bob'', ''amy''],
         pr_meta := JObj [(''repo'', JStr ''acme/cbm'')]\<rparr>]))
   \<and> least (submitted_times github_lib (rp_payload sample_pr_record)) = Some 1704067200000000"
proof -
  have "least (submitted_times github_lib (rp_payload sample_pr_record)) = Some 1704067200000000"
    by (simp add: sample_pr_record_def submitted_times_sample least_def)
  with github_upsert_sample show ?thesis by simp
qed
section \<open>Properties of the SLA limit\<close>

lemma dget_JObj: "dget m k = Inr x \<Longrightarrow> \<exists>kvs. m = JObj kvs"
  by (cases m) (auto simp: dget_def)

lemma sla_cfg_section: "sla_cfg config = Inr s \<Longrightarrow> s = sla_section config"
  by (cases config) (auto simp: sla_cfg_def sla_section_def ebind_def split: sum.splits dest!: dget_jget)

lemma sla_or_default_map:
  "sla_or_default (sla_section config) defaults name = Inr m \<Longrightarrow> m = sla_map config defaults name"
  by (auto simp: sla_or_default_def sla_map_def Let_def ebind_def split: sum.splits if_splits
           dest!: dget_jget)

lemma sla_or_default_JObj:
  "sla_or_default s defaults name = Inr m \<Longrightarrow> \<exists>kvs. s = JObj kvs"
  by (auto simp: sla_or_default_def ebind_def split: sum.splits dest: dget_JObj)

lemma items_entries: "items m = Inr kvs \<Longrightarrow> kvs = entries m"
  by (cases m) (auto simp: entries_def)

lemma label_priority_find:
  "label_priority L (map (\<lambda>kv. lower (fst kv)) pm) ls
     = find (\<lambda>l. matching l pm \<noteq> []) (map (py_str L) ls)"
  by (induction ls) (force simp: matching_def filter_empty_conv image_iff)+

lemma priority_hours_first:
  "priority_hours L p kvs =
     (case concat (map (\<lambda>kv. opt_hits (hours_of L (snd kv))) (matching p kvs)) of
        [] \<Rightarrow> None | n # ns \<Rightarrow> Some n)"
  by (induction kvs) (auto simp: matching_def hours_of_def split: sum.splits)

lemma lower_keys_last:
  "lower_keys kvs (lower t) =
     (case rev (matching t kvs) of [] \<Rightarrow> None | kv # r \<Rightarrow> Some (snd kv))"
  by (induction kvs rule: rev_induct) (auto simp: lower_keys_def matching_def)

lemma type_lookup:
  "(case lower_keys kvs (lower t) of
      Some v \<Rightarrow> (case py_int L v of Inr n \<Rightarrow> Some n | Inl e \<Rightarrow> None)
    | None \<Rightarrow> None) = type_override L kvs t"
  by (simp add: lower_keys_last type_override_def hours_of_def split: list.splits)

lemma global_hours_default:
  "sla_section config = JObj kvs \<Longrightarrow>
   global_hours L (sla_section config) defaults = global_default L config defaults"
  by (cases defaults)
     (auto simp: global_hours_def global_default_def entries_def ebind_def hours_of_def py_int_def
           split: sum.splits option.splits)

lemma jstrip_jstr: "jstrip (por x (JStr [])) = Inr s \<Longrightarrow> s = py_strip (jstr (por x (JStr [])))"
  by (cases "por x (JStr [])") (auto simp: jstr_def)

lemma meta_priority_item:
  assumes "meta_priority L pri_map meta = Inr p"
  shows "p = item_priority L (entries pri_map) meta"
proof (cases meta)
  case (JObj m)
  from assms JObj obtain s where
    st: "jstrip (por (por (jget meta ''priority'') (jget meta ''Priority'')) (JStr [])) = Inr s"
    and rest: "(if s = [] then
                    ebind (dget meta ''labels'') (\<lambda>labels0.
                      case por labels0 (JArr []) of
                        JArr labels \<Rightarrow>
                          (if labels = [] then Inr []
                           else ebind (items pri_map) (\<lambda>kvs.
                                  Inr (case label_priority L (map (\<lambda>kv. lower (fst kv)) kvs) labels of
                                         Some p \<Rightarrow> p | None \<Rightarrow> [])))
                      | _ \<Rightarrow> Inr [])
                  else Inr s) = Inr p"
    by (auto simp: meta_priority_def ebind_def dget_def jget_def split: sum.splits)
  from jstrip_jstr[OF st] have s: "s = py_strip (jstr (por (por (jget meta ''priority'') (jget meta ''Priority'')) (JStr [])))" .
  show ?thesis
  proof (cases "s = []")
    case False
    with rest s show ?thesis by (simp add: item_priority_def Let_def)
  next
    case True
    have "p = (case find (\<lambda>l. matching l (entries pri_map) \<noteq> [])
                      (map (py_str L) (jlist (jget meta ''labels''))) of
                Some l \<Rightarrow> l | None \<Rightarrow> [])"
    proof (cases "jlist (jget meta ''labels'') = []")
      case e: True
      with rest True JObj show ?thesis
        by (auto simp: ebind_def dget_def jget_def jlist_def por_def
               split: sum.splits json.splits if_splits option.splits)
    next
      case ne: False
      then obtain labels where l: "jget meta ''labels'' = JArr labels" "labels \<noteq> []"
        by (cases "jget meta ''labels''") (auto simp: jlist_def)
      with rest True JObj obtain kvs where k: "items pri_map = Inr kvs"
        and pp: "p = (case label_priority L (map (\<lambda>kv. lower (fst kv)) kvs) labels of
                                         Some p \<Rightarrow> p | None \<Rightarrow> [])"
        by (auto simp: ebind_def dget_def jget_def por_def split: sum.splits option.splits)
      from items_entries[OF k] pp l show ?thesis
        by (simp add: label_priority_find jlist_def)
    qed
    with True s show ?thesis by (simp add: item_priority_def Let_def)
  qed
qed (use assms in \<open>auto simp: meta_priority_def item_priority_def Let_def jget_def por_def py_strip_def jstr_def jlist_def\<close>)

text \<open>
  Claim C6, as the code has it. Whenever \<open>_hours_for_item\<close> returns, the SLA limit is
  resolved by precedence: the priority override, then the type override, then the
  global default. Each map is the one of the configuration, or the one of the deployment
  defaults when that is missing or empty; keys are matched up to case, and a value
  counts when \<open>int\<close> converts it. The priority of the item is \<open>meta.priority\<close>, else
  \<open>meta.Priority\<close>, stripped, and when that is blank the first label of \<open>meta.labels\<close>
  that matches a key of the priority map. The priority override is the value of the
  first key of the priority map that matches the priority and converts; the type
  override is the value of the last key of the type map that matches the type, if it
  converts; the global default is \<open>blocked_hours\<close> of the \<open>sla\<close> section when the key is
  there, else of the deployment defaults when the key is there, else 48, and 48 when
  that value does not convert or the deployment defaults are no map.
\<close>

theorem hours_for_item_precedence:
  assumes ret: "hours_for_item L config defaults wi = Inr h"
  shows "h = (case priority_override L (entries (sla_map config defaults ''by_priority'')) (wi_meta wi) of
                Some n \<Rightarrow> n
              | None \<Rightarrow>
                 (case type_override L (entries (sla_map config defaults ''by_type'')) (wi_item_type wi) of
                    Some n \<Rightarrow> n
                  | None \<Rightarrow> global_default L config defaults))"
proof -
  from ret obtain sla where s0: "sla_cfg config = Inr sla"
    by (auto simp: hours_for_item_def ebind_def split: sum.splits)
  then have sla: "sla = sla_section config" by (rule sla_cfg_section)
  from ret s0 obtain pri_map where p0: "sla_or_default sla defaults ''by_priority'' = Inr pri_map"
    by (auto simp: hours_for_item_def ebind_def split: sum.splits)
  with sla have pri_map: "pri_map = sla_map config defaults ''by_priority''"
    using sla_or_default_map by blast
  from p0 sla obtain skvs where sk: "sla_section config = JObj skvs"
    using sla_or_default_JObj by blast
  from ret s0 p0 obtain priority where pr0: "meta_priority L pri_map (wi_meta wi) = Inr priority"
    by (auto simp: hours_for_item_def ebind_def split: sum.splits)
  then have priority: "priority = item_priority L (entries pri_map) (wi_meta wi)"
    by (rule meta_priority_item)
  from ret s0 p0 pr0 obtain byp where
    b0: "(if priority \<noteq> [] then ebind (items pri_map) (\<lambda>kvs. Inr (priority_hours L priority kvs))
            else Inr None) = Inr byp"
    by (auto simp: hours_for_item_def ebind_def split: sum.splits)
  have byp: "byp = priority_override L (entries pri_map) (wi_meta wi)"
  proof (cases "priority = []")
    case True
    with b0 priority show ?thesis by (simp add: priority_override_def)
  next
    case False
    with b0 obtain kvs where k: "items pri_map = Inr kvs" and "byp = priority_hours L priority kvs"
      by (auto simp: ebind_def split: sum.splits)
    with items_entries[OF k] False priority show ?thesis
      by (simp add: priority_override_def priority_hours_first)
  qed
  show ?thesis
  proof (cases byp)
    case (Some n)
    with ret s0 p0 pr0 b0 have "h = n"
      by (simp add: hours_for_item_def ebind_def)
    with Some byp pri_map show ?thesis by simp
  next
    case None
    with ret s0 p0 pr0 b0 obtain type_map tkvs where
      t0: "sla_or_default sla defaults ''by_type'' = Inr type_map" and
      t1: "items type_map = Inr tkvs" and
      t2: "(case (case lower_keys tkvs (lower (wi_item_type wi)) of
                     Some v \<Rightarrow> (case py_int L v of Inr n \<Rightarrow> Some n | Inl e \<Rightarrow> None)
                   | None \<Rightarrow> None) of
               Some n \<Rightarrow> Inr n
             | None \<Rightarrow> Inr (global_hours L sla defaults)) = (Inr h :: exn + int)"
      by (auto simp: hours_for_item_def ebind_def split: sum.splits)
    from t0 sla have "type_map = sla_map config defaults ''by_type''"
      using sla_or_default_map by blast
    with items_entries[OF t1] have tkvs: "tkvs = entries (sla_map config defaults ''by_type'')" by simp
    from t2 have "h = (case type_override L tkvs (wi_item_type wi) of
                    Some n \<Rightarrow> n
                  | None \<Rightarrow> global_default L config defaults)"
      unfolding type_lookup sla global_hours_default[OF sk] by (auto split: option.splits)
    with None byp pri_map tkvs show ?thesis by simp
  qed
qed

lemmas sla_eval =
  hours_for_item_def sla_cfg_def sla_or_default_def meta_priority_def ebind_def dget_def
  por_def sample_sla_config_def sla_config_def sample_item_def WorkItem_blank_def py_strip_def
  is_space_def lower_def lower_char_def lower_keys_def py_int_def global_hours_def py_str_def
  Let_def

lemmas sla_spec_eval =
  sla_map_def sla_section_def jget_def jstr_def jlist_def entries_def matching_def hours_of_def
  priority_override_def item_priority_def type_override_def global_default_def

lemma hours_P1:
  "hours_for_item sample_lib sample_sla_config (JObj [])
     (sample_item ''bug'' (JObj [(''priority'', JStr ''P1'')])) = Inr 4"
  by (simp add: sla_eval)

lemma hours_label:
  "hours_for_item sample_lib sample_sla_config (JObj [])
     (sample_item ''bug'' (JObj [(''labels'', JArr [JStr ''P1''])])) = Inr 4"
  by (simp add: sla_eval)

lemma hours_Priority:
  "hours_for_item sample_lib sample_sla_config (JObj [])
     (sample_item ''bug'' (JObj [(''Priority'', JStr '' p1 '')])) = Inr 4"
  by (simp add: sla_eval)

lemma hours_null_value:
  "hours_for_item sample_lib
     (sla_config (JInt 48) (JObj [(''P1'', JNull)]) (JObj [(''bug'', JInt 24)])) (JObj [])
     (sample_item ''bug'' (JObj [(''priority'', JStr ''P1'')])) = Inr 24"
  by (simp add: sla_eval)

lemma hours_first_priority_key:
  "hours_for_item sample_lib
     (sla_config (JInt 48) (JObj [(''P1'', JInt 4), (''p1'', JInt 8)]) (JObj [(''bug'', JInt 24)]))
     (JObj []) (sample_item ''bug'' (JObj [(''priority'', JStr ''p1'')])) = Inr 4"
  by (simp add: sla_eval)

lemma hours_last_type_key:
  "hours_for_item sample_lib
     (sla_config (JInt 48) (JObj [(''P1'', JInt 4)]) (JObj [(''Bug'', JInt 24), (''bug'', JInt 12)]))
     (JObj []) (sample_item ''Bug'' (JObj [])) = Inr 12"
  by (simp add: sla_eval)

lemma hours_null_global:
  "hours_for_item sample_lib (sla_config JNull (JObj []) (JObj []))
     (JObj [(''blocked_hours'', JInt 72)]) (sample_item ''story'' (JObj [])) = Inr 48"
  by (simp add: sla_eval)

lemma hours_defaults_no_map:
  "hours_for_item sample_lib
     (sla_config (JInt 72) (JObj [(''P1'', JInt 4)]) (JObj [(''bug'', JInt 24)]))
     (JArr [JInt 1]) (sample_item ''story'' (JObj [])) = Inr 48"
  by (simp add: sla_eval)

lemma hours_raises:
  "hours_for_item sample_lib
     (sla_config (JInt 48) (JArr [JStr ''P1'']) (JObj [(''bug'', JInt 24)])) (JObj [])
     (sample_item ''bug'' (JObj [(''priority'', JStr ''P1'')])) = Inl AttributeError"
  by (simp add: sla_eval)

theorem hours_for_item_precedence_witness:
  "hours_for_item sample_lib sample_sla_config (JObj [])
     (sample_item ''bug'' (JObj [(''priority'', JStr ''P1'')])) = Inr 4
   \<and> priority_override sample_lib (entries (sla_map sample_sla_config (JObj []) ''by_priority''))
        (JObj [(''priority'', JStr ''P1'')]) = Some 4
   \<and> type_override sample_lib (entries (sla_map sample_sla_config (JObj []) ''by_type'')) ''bug''
        = Some 24
   \<and> global_default sample_lib sample_sla_config (JObj []) = 48"
proof -
  have a: "priority_override sample_lib (entries (sla_map sample_sla_config (JObj []) ''by_priority''))
        (JObj [(''priority'', JStr ''P1'')]) = Some 4"
    by (simp add: sla_spec_eval sample_sla_config_def sla_config_def por_def py_strip_def
          is_space_def lower_def lower_char_def py_int_def Let_def)
  have b: "type_override sample_lib (entries (sla_map sample_sla_config (JObj []) ''by_type'')) ''bug''
        = Some 24"
    by (simp add: sla_spec_eval sample_sla_config_def sla_config_def por_def lower_def
          lower_char_def py_int_def Let_def)
  have c: "global_default sample_lib sample_sla_config (JObj []) = 48"
    by (simp add: sla_spec_eval sample_sla_config_def sla_config_def por_def py_int_def)
  from hours_for_item_precedence [OF hours_P1] hours_P1 a b c
  show ?thesis by (simp add: sample_item_def)
qed

text \<open>
  Claim C6, as stated, fails on each of these items. The first has no \<open>meta.priority\<close>
  and carries the label "P1": its type "bug" is a key of the type map, mapped to 24,
  and the limit is the 4 of the priority map. The second has \<open>meta.Priority\<close>, with
  blanks and in lower case, and no \<open>meta.priority\<close>: the limit is 4 again. The third
  has \<open>meta.priority\<close> "P1", a key of the priority map whose value is null: the limit is
  the 24 of its type. The fourth has \<open>meta.priority\<close> "p1", a key of the priority map
  mapped to 8: the limit is the 4 of the key "P1", which comes first. The fifth has the
  type "Bug", a key of the type map mapped to 24: the limit is the 12 of the key "bug",
  which comes last. The sixth matches no map, the configuration has a null
  \<open>blocked_hours\<close> and the deployment defaults 72: the limit is 48. The seventh matches no
  map, the configuration has \<open>blocked_hours\<close> 72 and the deployment defaults are a list:
  the limit is 48. On the eighth, whose priority map is a list, no limit is resolved:
  \<open>pri_map.items()\<close> raises.
\<close>

theorem priority_resolution_differs:
  "hours_for_item sample_lib sample_sla_config (JObj [])
     (sample_item ''bug'' (JObj [(''labels'', JArr [JStr ''P1''])])) = Inr 4
   \<and> hours_for_item sample_lib sample_sla_config (JObj [])
     (sample_item ''bug'' (JObj [(''Priority'', JStr '' p1 '')])) = Inr 4
   \<and> hours_for_item sample_lib
     (sla_config (JInt 48) (JObj [(''P1'', JNull)]) (JObj [(''bug'', JInt 24)])) (JObj [])
     (sample_item ''bug'' (JObj [(''priority'', JStr ''P1'')])) = Inr 24
   \<and> hours_for_item sample_lib
     (sla_config (JInt 48) (JObj [(''P1'', JInt 4), (''p1'', JInt 8)]) (JObj [(''bug'', JInt 24)]))
     (JObj []) (sample_item ''bug'' (JObj [(''priority'', JStr ''p1'')])) = Inr 4
   \<and> hours_for_item sample_lib
     (sla_config (JInt 48) (JObj [(''P1'', JInt 4)]) (JObj [(''Bug'', JInt 24), (''bug'', JInt 12)]))
     (JObj []) (sample_item ''Bug'' (JObj [])) = Inr 12
   \<and> hours_for_item sample_lib (sla_config JNull (JObj []) (JObj []))
     (JObj [(''blocked_hours'', JInt 72)]) (sample_item ''story'' (JObj [])) = Inr 48
   \<and> hours_for_item sample_lib
     (sla_config (JInt 72) (JObj [(''P1'', JInt 4)]) (JObj [(''bug'', JInt 24)]))
     (JArr [JInt 1]) (sample_item ''story'' (JObj [])) = Inr 48
   \<and> hours_for_item sample_lib
     (sla_config (JInt 48) (JArr [JStr ''P1'']) (JObj [(''bug'', JInt 24)])) (JObj [])
     (sample_item ''bug'' (JObj [(''priority'', JStr ''P1'')])) = Inl AttributeError"
  using hours_label hours_Priority hours_null_value hours_first_priority_key hours_last_type_key
    hours_null_global hours_defaults_no_map hours_raises
  by blast
section \<open>Properties of the notification grouping\<close>

lemma updated_at_no_field: "''updated_at'' \<notin> set RemediationTicket_fields"
  by (simp add: RemediationTicket_fields_def)

lemma recent_qs_raises: "recent_qs ts board since = Inl FieldError"
  using updated_at_no_field by (simp add: recent_qs_def filter_gte_def ebind_def split: sum.splits)

text \<open>
  Claim C9 fails on every call. \<open>_collect_for_board\<close> builds \<open>recent\<close> from
  \<open>open_qs.filter(updated_at__gte=since)\<close>, and the model class \<open>RemediationTicket\<close>
  declares no field \<open>updated_at\<close>: the lookup raises \<open>FieldError\<close> before any ticket is
  grouped, whatever the board, the channel, the window and the tickets are. The
  docstring of the function promises the violations of the last window, and the comment
  on line 28 the tickets "recently created/updated".
\<close>

theorem collect_for_board_raises:
  "collect_for_board env ts now board channel window_minutes = Inl FieldError"
  by (simp add: collect_for_board_def Let_def recent_qs_raises ebind_def)
end
